theory Spec2Isabelle
  imports Main
begin

section \<open>DownloadManager.js: results and the Downloader lifecycle\<close>

text \<open>
  \<^verbatim>\<open>class DownloadResult { constructor(folderPath, userError) }\<close>: both fields are
  \<^verbatim>\<open>?string\<close>; \<open>None\<close> is JavaScript's \<^verbatim>\<open>null\<close>.
\<close>

record DownloadResult =
  folderPath :: "string option"
  userError :: "string option"

text \<open>
  \<^verbatim>\<open>class Downloader\<close>. The constructor assigns \<^verbatim>\<open>folderPath\<close>,
  \<^verbatim>\<open>userError\<close>, \<^verbatim>\<open>_disposed\<close> and \<^verbatim>\<open>_downloadJob\<close>.
  \<^verbatim>\<open>_downloadPromise\<close> and \<^verbatim>\<open>_dislabedCleanup\<close> are read but not assigned
  by the constructor, so they start as \<^verbatim>\<open>undefined\<close>: \<open>None\<close> for the promise,
  \<open>False\<close> for the flag (only its truthiness is read). The job is kept abstract
  (type \<open>'j\<close>); a promise is identified by the number of the job invocation that
  produced it, so two invocations would give two different promises.
\<close>

record 'j Downloader = DownloadResult +
  disposed :: bool
  dislabedCleanup :: bool
  downloadPromise :: "nat option"
  downloadJob :: 'j

definition new_Downloader :: "'j \<Rightarrow> 'j Downloader" where
  "new_Downloader job =
     \<lparr>folderPath = None, userError = None, disposed = False,
      dislabedCleanup = False, downloadPromise = None, downloadJob = job\<rparr>"

text \<open>
  How the promise returned by the job settles: it resolves with a
  \<^verbatim>\<open>DownloadResult\<close>, or it rejects (the async job body threw).
\<close>

datatype settlement = Resolve DownloadResult | Reject

text \<open>
  A Downloader together with what its methods do to the outside:
  \<open>jobCalls\<close> counts \<^verbatim>\<open>this._downloadJob.call(null)\<close>,
  \<open>jobOutcome\<close> is the settlement of the job's promise once it has happened,
  \<open>cleanups\<close> lists the arguments of \<^verbatim>\<open>utils.rmdirRecursive\<close> as called by
  \<^verbatim>\<open>dispose\<close>, in order.
\<close>

record 'j world =
  self :: "'j Downloader"
  jobCalls :: nat
  jobOutcome :: "settlement option"
  cleanups :: "string list"

definition new_world :: "'j \<Rightarrow> 'j world" where
  "new_world job =
     \<lparr>self = new_Downloader job, jobCalls = 0, jobOutcome = None, cleanups = []\<rparr>"

text \<open>
  \<^verbatim>\<open>downloadIfNeeded()\<close>: a cached promise (an object, hence truthy) is returned
  as it is; otherwise the job is invoked, the promise is stored and returned.
\<close>

definition downloadIfNeeded :: "'j world \<Rightarrow> nat \<times> 'j world" where
  "downloadIfNeeded w =
     (case downloadPromise (self w) of
        Some p \<Rightarrow> (p, w)
      | None \<Rightarrow>
          (let n = Suc (jobCalls w)
           in (n, w\<lparr>jobCalls := n, self := (self w)\<lparr>downloadPromise := Some n\<rparr>\<rparr>)))"

text \<open>
  The \<^verbatim>\<open>.then(result => ...)\<close> callback of \<^verbatim>\<open>downloadIfNeeded\<close>. It runs when
  the job's promise resolves, which needs the job to have been invoked and happens at
  most once; a rejection skips the callback.
\<close>

definition settle :: "settlement \<Rightarrow> 'j world \<Rightarrow> 'j world" where
  "settle s w =
     (if downloadPromise (self w) = None \<or> jobOutcome w \<noteq> None then w
      else (case s of
              Reject \<Rightarrow> w\<lparr>jobOutcome := Some Reject\<rparr>
            | Resolve result \<Rightarrow>
                w\<lparr>jobOutcome := Some (Resolve result),
                  self := (self w)\<lparr>folderPath := folderPath result,
                                    userError := userError result\<rparr>\<rparr>))"

text \<open>
  \<^verbatim>\<open>dispose()\<close>. \<^verbatim>\<open>!this.folderPath\<close> holds for \<^verbatim>\<open>null\<close> and for the
  empty string. The promise of \<^verbatim>\<open>utils.rmdirRecursive\<close> is not awaited and its
  outcome is only logged.
\<close>

definition dispose :: "'j world \<Rightarrow> 'j world" where
  "dispose w =
     (if disposed (self w) then w
      else
        (let w1 = w\<lparr>self := (self w)\<lparr>disposed := True\<rparr>\<rparr>
         in if dislabedCleanup (self w1) then w1
            else (case folderPath (self w1) of
                    None \<Rightarrow> w1
                  | Some p \<Rightarrow>
                      if p = [] then w1
                      else w1\<lparr>cleanups := cleanups w1 @ [p]\<rparr>)))"

text \<open>
  What can happen to a Downloader, in any order: a caller triggers it, the job's
  promise settles, a caller disposes it. \<open>run\<close> also collects the promises that the
  trigger calls returned.
\<close>

datatype event = Trigger | Settle settlement | Dispose

definition step :: "event \<Rightarrow> 'j world \<Rightarrow> nat list \<times> 'j world" where
  "step e w =
     (case e of
        Trigger \<Rightarrow> ([fst (downloadIfNeeded w)], snd (downloadIfNeeded w))
      | Settle s \<Rightarrow> ([], settle s w)
      | Dispose \<Rightarrow> ([], dispose w))"

fun run :: "event list \<Rightarrow> 'j world \<Rightarrow> nat list \<times> 'j world" where
  "run [] w = ([], w)"
| "run (e # es) w =
     (fst (step e w) @ fst (run es (snd (step e w))), snd (run es (snd (step e w))))"

text \<open>
  The state a Downloader is in between calls: before the first trigger nothing has
  been invoked; afterwards the job has been invoked once and its promise is cached;
  a resolved job has left its result in the two public fields.
\<close>

definition lifecycle_inv :: "'j world \<Rightarrow> bool" where
  "lifecycle_inv w =
     ((case downloadPromise (self w) of
         None \<Rightarrow> jobCalls w = 0 \<and> jobOutcome w = None
       | Some p \<Rightarrow> jobCalls w = 1 \<and> p = 1) \<and>
      (case jobOutcome w of
         Some (Resolve r) \<Rightarrow>
           folderPath (self w) = folderPath r \<and> userError (self w) = userError r
       | _ \<Rightarrow> True))"

section \<open>DownloadManager.js: the acquisition jobs\<close>

text \<open>
  A JavaScript string is kept as its UTF-8 bytes, so that concatenation and template
  strings are list concatenation and an ASCII character is one \<open>char\<close>.
\<close>

subsection \<open>Numbers in template strings\<close>

text \<open>
  \<^verbatim>\<open>`${n}`\<close> for an integral number: its decimal digits, with a minus sign when
  negative. (JavaScript switches to exponent notation from \<open>10^21\<close> on; the numbers
  rendered with it are counters, status codes, and option values below \<open>2^53\<close>.)
\<close>

definition digit :: "nat \<Rightarrow> char" where
  "digit d = ''0123456789'' ! d"

fun show_nat :: "nat \<Rightarrow> string" where
  "show_nat n =
     (if n < 10 then [digit n]
      else show_nat (n div 10) @ [digit (n mod 10)])"

declare show_nat.simps [simp del]

definition show_int :: "int \<Rightarrow> string" where
  "show_int i = (if i < 0 then CHR ''-'' # show_nat (nat (- i)) else show_nat (nat i))"

subsection \<open>\<^verbatim>\<open>UserErrors\<close>\<close>

definition LoadingBadResponse :: "string \<Rightarrow> int \<Rightarrow> string" where
  "LoadingBadResponse url statusCode =
     ''failed to download URL '' @ url @ '' - got response status '' @ show_int statusCode"

definition LoadingError :: "string \<Rightarrow> string \<Rightarrow> string" where
  "LoadingError url error = ''error while loading '' @ url @ '': '' @ error"

definition GitCloneFailed :: "string \<Rightarrow> string" where
  "GitCloneFailed url = ''failed to clone git repository '' @ url"

definition TarballExtractionFailed :: string where
  "TarballExtractionFailed = ''failed to extract tarball''"

definition ImageDataUrlExtractionFailed :: "string \<Rightarrow> string" where
  "ImageDataUrlExtractionFailed imgName =
     ''failed to save image '' @ imgName @ '' -- expected image data URI''"

subsection \<open>The outside world\<close>

text \<open>
  Every call that leaves the file is recorded, in program order: the calls into
  \<^verbatim>\<open>./utilities\<close>, \<^verbatim>\<open>child_process.execFile\<close> (command, arguments, the
  \<^verbatim>\<open>timeout\<close> option in milliseconds if given), \<^verbatim>\<open>fs.createWriteStream\<close>,
  \<^verbatim>\<open>request.get\<close> (URL, timeout), and each call of a promise's
  \<^verbatim>\<open>fulfill\<close>. An argument handed to a subprocess is a JavaScript value: a string,
  or one of the other values an option lookup can yield; of an object only one thing
  is kept, whether converting it to a string succeeds (\<open>AObject True\<close>) or throws.
\<close>

datatype content = Text string | Buffer string

datatype jsarg = AStr string | ABool bool | AObject bool | AFunction | AUndefined

datatype effect =
    Mkdir string
  | WriteFile string content
  | Exists string
  | Rmdir string
  | RmdirRecursive string
  | ExecFile string "string list" "nat option"
  | ExecuteCommand string "jsarg list"
  | CreateWriteStream string
  | RequestGet string nat
  | Fulfill DownloadResult

text \<open>
  What \<^verbatim>\<open>request.get(url, ...)\<close> and the streams do. \<open>SyncThrow\<close> in the first
  place: the call itself throws, before any handler is attached (\<^verbatim>\<open>request\<close>
  emits \<^verbatim>\<open>error\<close> at once for a URL it cannot parse, and an \<^verbatim>\<open>error\<close> event
  without a listener is thrown). Otherwise the events of the request stream and of
  the file stream it is piped into, in order: \<^verbatim>\<open>response\<close> with its status code,
  \<^verbatim>\<open>error\<close> with the error as the template string prints it,
  \<^verbatim>\<open>finish\<close>.
\<close>

datatype stream_event = SyncThrow | Response int | Error string | Finish

text \<open>
  What the job cannot decide itself. \<open>answers n\<close> is the outcome of the \<open>n\<close>-th
  awaited external call of a job (\<open>True\<close>: success). \<open>events\<close> is the order in
  which the streams of a URL download emit. \<open>pathJoin\<close> is Node's
  \<^verbatim>\<open>path.join\<close>. \<open>dataUriRE\<close> is \<^verbatim>\<open>dataUriRE().exec\<close> of the npm package
  \<^verbatim>\<open>data-uri-regex\<close>: \<open>None\<close> for no match, else groups 3 and 4 of the match
  (group 3 may be \<^verbatim>\<open>undefined\<close>). \<open>newBuffer data encoding\<close> is Node's
  \<^verbatim>\<open>new Buffer(data, encoding)\<close>, \<open>None\<close> when it throws (unknown encoding).
  \<open>bigNumber w\<close> is the text JavaScript prints for the number that
  \<^verbatim>\<open>parseInt\<close> returns when the integer it read is \<open>w\<close>, of a magnitude of
  \<open>2^53\<close> or more (the number is a rounded floating-point value; it may be
  \<^verbatim>\<open>Infinity\<close>).
\<close>

record env =
  answers :: "nat \<Rightarrow> bool"
  events :: "stream_event list"
  pathJoin :: "string \<Rightarrow> string \<Rightarrow> string"
  dataUriRE :: "string \<Rightarrow> (string option \<times> string) option"
  newBuffer :: "string \<Rightarrow> string option \<Rightarrow> string option"
  bigNumber :: "int \<Rightarrow> string"

record io =
  asked :: nat
  effects :: "effect list"

definition io0 :: io where
  "io0 = \<lparr>asked = 0, effects = []\<rparr>"

definition perform :: "effect \<Rightarrow> io \<Rightarrow> io" where
  "perform e s = s\<lparr>effects := effects s @ [e]\<rparr>"

definition await :: "env \<Rightarrow> effect \<Rightarrow> io \<Rightarrow> bool \<times> io" where
  "await env e s = (answers env (asked s), s\<lparr>asked := Suc (asked s), effects := effects s @ [e]\<rparr>)"

definition new_DownloadResult :: "string option \<Rightarrow> string option \<Rightarrow> DownloadResult" where
  "new_DownloadResult f u = \<lparr>folderPath = f, userError = u\<rparr>"

text \<open>
  Modelled from the spec: \<^verbatim>\<open>utils.minutes\<close> of \<^verbatim>\<open>./utilities\<close>, which is
  not among the sources. The spec gives the git timeout \<^verbatim>\<open>utils.minutes(2)\<close> as
  120000 ms, so \<open>minutes\<close> converts minutes to milliseconds.
\<close>

definition minutes :: "nat \<Rightarrow> nat" where
  "minutes n = n * 60 * 1000"

text \<open>\<^verbatim>\<open>async function createFolder(folderPath)\<close>\<close>

definition createFolder :: "env \<Rightarrow> string \<Rightarrow> io \<Rightarrow> bool \<times> io" where
  "createFolder env folder s = await env (Mkdir folder) s"

subsection \<open>The manager\<close>

record DownloadManager =
  mgr_folderPath :: string
  mgr_id :: nat

definition new_DownloadManager :: "string \<Rightarrow> DownloadManager" where
  "new_DownloadManager folder = \<lparr>mgr_folderPath = folder, mgr_id = 0\<rparr>"

definition nextName :: "env \<Rightarrow> DownloadManager \<Rightarrow> string \<times> DownloadManager" where
  "nextName env m =
     (let n = Suc (mgr_id m)
      in (pathJoin env (mgr_folderPath m) (''tmp_'' @ show_nat n), m\<lparr>mgr_id := n\<rparr>))"

subsection \<open>Text, git, URL and tarball jobs\<close>

text \<open>
  Each job is the body of the \<^verbatim>\<open>async () => {...}\<close> closure handed to
  \<^verbatim>\<open>new Downloader\<close>, with the variables it closes over as arguments (\<open>folder\<close>
  is the closure's \<^verbatim>\<open>folderPath\<close>). It returns how its promise settles
  (\<open>None\<close>: never) and the calls it made. Calls of the logger are left out.
\<close>

definition textJob :: "env \<Rightarrow> string \<Rightarrow> string \<Rightarrow> string \<Rightarrow> io \<Rightarrow> settlement option \<times> io" where
  "textJob env folder text fileName s =
     (let (success, s1) = createFolder env folder s
      in if \<not> success then (Some (Resolve (new_DownloadResult None None)), s1)
         else
           (let filePath = pathJoin env folder fileName;
                (fileCreated, s2) = await env (WriteFile filePath (Text text)) s1
            in if \<not> fileCreated
               then (Some (Resolve (new_DownloadResult None None)), perform (Rmdir folder) s2)
               else (Some (Resolve (new_DownloadResult (Some folder) None)), s2)))"

text \<open>
  The promise of the git and tarball jobs is fulfilled in the callback of
  \<^verbatim>\<open>execFile\<close>; the answer of the environment is \<open>True\<close> when the callback gets
  no \<^verbatim>\<open>err\<close>.
\<close>

definition gitJob :: "env \<Rightarrow> string \<Rightarrow> string \<Rightarrow> io \<Rightarrow> settlement option \<times> io" where
  "gitJob env folder url s =
     (let (exists, s1) = await env (Exists folder) s
      in if exists then (Some (Resolve (new_DownloadResult None None)), s1)
         else
           (let (ok, s2) = await env (ExecFile ''git'' [''clone'', ''--depth'', ''1'', url, folder]
                                        (Some (minutes 2))) s1
            in if \<not> ok
               then (let r = new_DownloadResult None (Some (GitCloneFailed url))
                     in (Some (Resolve r), perform (Fulfill r) s2))
               else (let r = new_DownloadResult (Some folder) None
                     in (Some (Resolve r), perform (Fulfill r) s2))))"

definition tarballJob :: "env \<Rightarrow> string \<Rightarrow> string \<Rightarrow> io \<Rightarrow> settlement option \<times> io" where
  "tarballJob env folder tarballPath s =
     (let (success, s1) = createFolder env folder s
      in if \<not> success then (Some (Resolve (new_DownloadResult None None)), s1)
         else
           (let (ok, s2) = await env (ExecFile ''tar'' [''-xf'', tarballPath, ''-C'', folder] None) s1
            in if \<not> ok
               then (let r = new_DownloadResult None (Some TarballExtractionFailed)
                     in (Some (Resolve r), perform (Fulfill r) (perform (RmdirRecursive folder) s2)))
               else (let r = new_DownloadResult (Some folder) None
                     in (Some (Resolve r), perform (Fulfill r) s2))))"

text \<open>
  The URL job registers three handlers and returns the promise; the handlers then
  run as the streams emit. \<open>on_event\<close> is what a handler calls; a promise keeps
  the value of the first \<^verbatim>\<open>fulfill\<close> and ignores the later ones. When
  \<^verbatim>\<open>request.get\<close> throws, the async job rejects with the folder and the empty
  file in place.
\<close>

definition on_event :: "string \<Rightarrow> string \<Rightarrow> stream_event \<Rightarrow> effect list" where
  "on_event folder url ev =
     (case ev of
        SyncThrow \<Rightarrow> []
      | Response statusCode \<Rightarrow>
          if statusCode < 200 \<or> statusCode \<ge> 400
          then [Fulfill (new_DownloadResult None (Some (LoadingBadResponse url statusCode)))]
          else []
      | Error err \<Rightarrow>
          [RmdirRecursive folder,
           Fulfill (new_DownloadResult None (Some (LoadingError url err)))]
      | Finish \<Rightarrow> [Fulfill (new_DownloadResult (Some folder) None)])"

fun first_fulfilled :: "effect list \<Rightarrow> settlement option" where
  "first_fulfilled [] = None"
| "first_fulfilled (Fulfill r # es) = Some (Resolve r)"
| "first_fulfilled (e # es) = first_fulfilled es"

fun throws_at_once :: "stream_event list \<Rightarrow> bool" where
  "throws_at_once (SyncThrow # later) = True"
| "throws_at_once emitted = False"

definition urlJob :: "env \<Rightarrow> string \<Rightarrow> string \<Rightarrow> string \<Rightarrow> io \<Rightarrow> settlement option \<times> io" where
  "urlJob env folder url fileName s =
     (let (success, s1) = createFolder env folder s
      in if \<not> success then (Some (Resolve (new_DownloadResult None None)), s1)
         else
           (let filePath = pathJoin env folder fileName;
                s2 = perform (CreateWriteStream filePath) s1;
                s3 = perform (RequestGet url 5000) s2
            in if throws_at_once (events env) then (Some Reject, s3)
               else
                 (let handled = concat (map (on_event folder url) (events env))
                  in (first_fulfilled handled, s3\<lparr>effects := effects s3 @ handled\<rparr>))))"

subsection \<open>JSON values and \<^verbatim>\<open>parseInt\<close>\<close>

text \<open>
  The payload of the JSON job comes from \<^verbatim>\<open>JSON.parse\<close>. An object is its list
  of own properties in \<^verbatim>\<open>Object.keys\<close> order, with distinct keys. A number is
  a floating-point value; it is kept as the text that JavaScript's conversion of
  numbers to strings gives for it, which determines the number: \<^verbatim>\<open>12\<close>,
  \<^verbatim>\<open>-3\<close>, \<^verbatim>\<open>12.5\<close>, \<^verbatim>\<open>1e+21\<close>, \<^verbatim>\<open>Infinity\<close>. \<open>JInt n\<close> is the
  number with the integral value \<open>n\<close> for a magnitude below \<open>2^53\<close>, where every
  integer is a number of its own and prints in plain decimal.
\<close>

datatype json =
    JNull
  | JBool bool
  | JNum string
  | JStr string
  | JArr "json list"
  | JObj "(string \<times> json) list"

definition JInt :: "int \<Rightarrow> json" where
  "JInt n = JNum (show_int n)"

fun join_comma :: "string list \<Rightarrow> string" where
  "join_comma [] = []"
| "join_comma [x] = x"
| "join_comma (x # y # ys) = x @ '','' @ join_comma (y # ys)"

text \<open>What a \<^verbatim>\<open>try\<close> block can catch: a thrown string, or a \<^verbatim>\<open>TypeError\<close>.\<close>

datatype thrown = Thrown string | TypeError

text \<open>
  JavaScript's \<^verbatim>\<open>ToString\<close> on such a value, \<open>None\<close> when it throws a
  \<^verbatim>\<open>TypeError\<close>. An array joins its elements with commas, \<^verbatim>\<open>null\<close>
  elements as empty strings. An object is \<^verbatim>\<open>[object Object]\<close> through the
  inherited \<^verbatim>\<open>toString\<close>; an own property \<^verbatim>\<open>toString\<close> hides that method
  and is not callable (it came from JSON), and then the conversion throws.
\<close>

fun ToString :: "json \<Rightarrow> string option" where
  "ToString JNull = Some ''null''"
| "ToString (JBool b) = Some (if b then ''true'' else ''false'')"
| "ToString (JNum text) = Some text"
| "ToString (JStr s) = Some s"
| "ToString (JArr xs) =
     map_option join_comma (those (map (\<lambda>x. if x = JNull then Some [] else ToString x) xs))"
| "ToString (JObj kvs) =
     (if ''toString'' \<in> fst ` set kvs then None else Some ''[object Object]'')"

text \<open>
  The white space that \<^verbatim>\<open>parseInt\<close> skips (\<^verbatim>\<open>StrWhiteSpaceChar\<close> of
  ECMAScript, with the space separators of Unicode 6.3 and later), each in UTF-8:
  U+0009 to U+000D, U+0020, U+00A0, U+1680, U+2000 to U+200A, U+2028, U+2029,
  U+202F, U+205F, U+3000, U+FEFF.
\<close>

definition whiteSpace :: "string list" where
  "whiteSpace =
     [[CHR 0x09], [CHR 0x0A], [CHR 0x0B], [CHR 0x0C], [CHR 0x0D], [CHR 0x20],
      [CHR 0xC2, CHR 0xA0], [CHR 0xE1, CHR 0x9A, CHR 0x80],
      [CHR 0xE2, CHR 0x80, CHR 0x80], [CHR 0xE2, CHR 0x80, CHR 0x81],
      [CHR 0xE2, CHR 0x80, CHR 0x82], [CHR 0xE2, CHR 0x80, CHR 0x83],
      [CHR 0xE2, CHR 0x80, CHR 0x84], [CHR 0xE2, CHR 0x80, CHR 0x85],
      [CHR 0xE2, CHR 0x80, CHR 0x86], [CHR 0xE2, CHR 0x80, CHR 0x87],
      [CHR 0xE2, CHR 0x80, CHR 0x88], [CHR 0xE2, CHR 0x80, CHR 0x89],
      [CHR 0xE2, CHR 0x80, CHR 0x8A], [CHR 0xE2, CHR 0x80, CHR 0xA8],
      [CHR 0xE2, CHR 0x80, CHR 0xA9], [CHR 0xE2, CHR 0x80, CHR 0xAF],
      [CHR 0xE2, CHR 0x81, CHR 0x9F], [CHR 0xE3, CHR 0x80, CHR 0x80],
      [CHR 0xEF, CHR 0xBB, CHR 0xBF]]"

definition leadingWhiteSpace :: "string \<Rightarrow> string option" where
  "leadingWhiteSpace s = find (\<lambda>w. take (length w) s = w) whiteSpace"

function skipWhiteSpace :: "string \<Rightarrow> string" where
  "skipWhiteSpace s =
     (case leadingWhiteSpace s of
        None \<Rightarrow> s
      | Some w \<Rightarrow> skipWhiteSpace (drop (length w) s))"
  by pat_completeness auto
termination
proof (relation "measure length")
  show "wf (measure length)" by simp
next
  fix s w :: string
  assume "leadingWhiteSpace s = Some w"
  then have w: "w \<in> set whiteSpace" and t: "take (length w) s = w"
    by (auto simp: leadingWhiteSpace_def find_Some_iff)
  from w have "w \<noteq> []" by (auto simp: whiteSpace_def)
  moreover have "length (take (length w) s) = length w"
    using t by simp
  then have "length w \<le> length s"
    by simp
  ultimately show "(drop (length w) s, s) \<in> measure length"
    by (cases w) auto
qed

declare skipWhiteSpace.simps [simp del]

text \<open>
  \<^verbatim>\<open>parseInt(string)\<close> with no radix, after ECMAScript: skip leading white space,
  take a sign, switch to radix 16 after \<^verbatim>\<open>0x\<close> or \<^verbatim>\<open>0X\<close>, read the longest
  run of digits; \<open>None\<close> is \<^verbatim>\<open>NaN\<close> (no digit). The value is the signed
  mathematical integer of the digits; the number that JavaScript returns is the
  floating-point value nearest to it, which is that integer itself below \<open>2^53\<close>.
\<close>

definition digitValue :: "nat \<Rightarrow> char \<Rightarrow> nat option" where
  "digitValue R c =
     (let n = (of_char c :: nat);
          d = (if 48 \<le> n \<and> n \<le> 57 then Some (n - 48)
               else if 97 \<le> n \<and> n \<le> 122 then Some (n - 87)
               else if 65 \<le> n \<and> n \<le> 90 then Some (n - 55)
               else None)
      in case d of None \<Rightarrow> None | Some v \<Rightarrow> if v < R then Some v else None)"

definition isDigit :: "nat \<Rightarrow> char \<Rightarrow> bool" where
  "isDigit R c = (case digitValue R c of None \<Rightarrow> False | Some v \<Rightarrow> True)"

definition mathInt :: "nat \<Rightarrow> string \<Rightarrow> nat" where
  "mathInt R Z = fold (\<lambda>c acc. acc * R + (case digitValue R c of None \<Rightarrow> 0 | Some v \<Rightarrow> v)) Z 0"

definition parseInt_string :: "string \<Rightarrow> int option" where
  "parseInt_string inputString =
     (let S = skipWhiteSpace inputString;
          sign = (if take 1 S = ''-'' then - 1 else (1::int));
          S1 = (if take 1 S = ''-'' \<or> take 1 S = ''+'' then drop 1 S else S);
          hex = (take 2 S1 = ''0x'' \<or> take 2 S1 = ''0X'');
          R = (if hex then 16 else 10);
          S2 = (if hex then drop 2 S1 else S1);
          Z = takeWhile (isDigit R) S2
      in if Z = [] then None else Some (sign * int (mathInt R Z)))"

text \<open>
  \<^verbatim>\<open>parseInt(v)\<close> for a value that may be \<^verbatim>\<open>undefined\<close> (\<open>None\<close>): it
  throws when the conversion to a string does, and else yields a number or
  \<^verbatim>\<open>NaN\<close>. \<open>get_field v key\<close> is \<^verbatim>\<open>v.key\<close> for one of the keys
  \<^verbatim>\<open>x0\<close>, \<^verbatim>\<open>y0\<close>, \<^verbatim>\<open>x1\<close>, \<^verbatim>\<open>y1\<close>: reading a property of
  \<^verbatim>\<open>null\<close> throws a \<^verbatim>\<open>TypeError\<close> (\<open>None\<close>); strings, arrays, numbers
  and booleans have no such property.
\<close>

definition parseInt :: "json option \<Rightarrow> thrown + int option" where
  "parseInt v =
     (case v of
        None \<Rightarrow> Inr (parseInt_string ''undefined'')
      | Some j \<Rightarrow>
          (case ToString j of
             None \<Rightarrow> Inl TypeError
           | Some inputString \<Rightarrow> Inr (parseInt_string inputString)))"

definition get_field :: "json \<Rightarrow> string \<Rightarrow> json option option" where
  "get_field v key =
     (case v of JNull \<Rightarrow> None | JObj kvs \<Rightarrow> Some (map_of kvs key) | _ \<Rightarrow> Some None)"

subsection \<open>\<^verbatim>\<open>supportedInkscapeOptions\<close>\<close>

definition export_png :: "string \<Rightarrow> json \<Rightarrow> thrown + string" where
  "export_png folder pngFileName =
     (case pngFileName of
        JStr f \<Rightarrow> Inr (''--export-png='' @ folder @ ''/'' @ f)
      | _ \<Rightarrow> Inl (Thrown ''File name expected.''))"

text \<open>
  \<^verbatim>\<open>`${w}`\<close> for the number \<^verbatim>\<open>w\<close> that \<^verbatim>\<open>parseInt\<close> returned for the
  integer \<open>w\<close>: the integer in decimal below \<open>2^53\<close> (minus zero prints as
  \<^verbatim>\<open>0\<close>), the text of the rounded number from there on.
\<close>

definition number_text :: "env \<Rightarrow> int \<Rightarrow> string" where
  "number_text env w = (if \<bar>w\<bar> < 2 ^ 53 then show_int w else bigNumber env w)"

text \<open>
  \<^verbatim>\<open>parseInt(area.key)\<close> inside the \<^verbatim>\<open>try\<close> block of \<^verbatim>\<open>export-area\<close>;
  whatever is thrown there is replaced by the builder's first message.
\<close>

definition area_bound :: "json \<Rightarrow> string \<Rightarrow> thrown + int option" where
  "area_bound area key =
     (case get_field area key of None \<Rightarrow> Inl TypeError | Some v \<Rightarrow> parseInt v)"

definition export_area :: "env \<Rightarrow> json \<Rightarrow> thrown + string" where
  "export_area env area =
     (case (area_bound area ''x0'', area_bound area ''y0'',
            area_bound area ''x1'', area_bound area ''y1'') of
        (Inr px0, Inr py0, Inr px1, Inr py1) \<Rightarrow>
          (case (px0, py0, px1, py1) of
             (Some x0, Some y0, Some x1, Some y1) \<Rightarrow>
               Inr (''--export-area='' @ number_text env x0 @ '':'' @ number_text env y0 @ '':''
                      @ number_text env x1 @ '':'' @ number_text env y1)
           | _ \<Rightarrow> Inl (Thrown ''Four numbers x0, y0, x1, y1 expected as parameters but NaN detected''))
      | _ \<Rightarrow> Inl (Thrown ''Four numbers x0, y0, x1, y1 expected as parameters.''))"

definition export_width :: "env \<Rightarrow> json \<Rightarrow> thrown + string" where
  "export_width env width =
     (case parseInt (Some width) of
        Inl err \<Rightarrow> Inl (Thrown ''Expected a number parameter.'')
      | Inr None \<Rightarrow> Inl (Thrown ''Expected a number parameter but NaN detected.'')
      | Inr (Some w) \<Rightarrow> Inr (''--export-width='' @ number_text env w))"

definition export_height :: "env \<Rightarrow> json \<Rightarrow> thrown + string" where
  "export_height env height =
     (case parseInt (Some height) of
        Inl err \<Rightarrow> Inl (Thrown ''Expected a number parameter.'')
      | Inr None \<Rightarrow> Inl (Thrown ''Expected a number parameter but NaN detected.'')
      | Inr (Some h) \<Rightarrow> Inr (''--export-height='' @ number_text env h))"

text \<open>
  \<^verbatim>\<open>supportedInkscapeOptions\<close> is an object literal, so a lookup that finds no own
  property goes on to \<^verbatim>\<open>Object.prototype\<close>. \<open>Object_prototype name param\<close> is the
  call \<^verbatim>\<open>supportedInkscapeOptions[name](param)\<close> for a \<open>name\<close> that is not an own
  property: the methods of \<^verbatim>\<open>Object.prototype\<close> return a value, those that
  take a property key after converting \<open>param\<close> to a string;
  \<^verbatim>\<open>valueOf\<close> returns the options object and \<^verbatim>\<open>constructor\<close>, which is
  \<^verbatim>\<open>Object\<close>, returns \<open>param\<close> as an object (the same object or array, a
  wrapper of a primitive, an empty object for \<^verbatim>\<open>null\<close>);
  \<^verbatim>\<open>__defineGetter__\<close> and \<^verbatim>\<open>__defineSetter__\<close> throw for want of a function
  argument; \<^verbatim>\<open>__proto__\<close> is an object and any other name is
  \<^verbatim>\<open>undefined\<close>, and calling either throws a \<^verbatim>\<open>TypeError\<close>.
\<close>

definition own_options :: "string list" where
  "own_options = [''export-png'', ''export-area'', ''export-width'', ''export-height'']"

definition has_own :: "json \<Rightarrow> thrown + jsarg" where
  "has_own param =
     (case ToString param of
        None \<Rightarrow> Inl TypeError
      | Some key \<Rightarrow> Inr (ABool (key \<in> set own_options)))"

definition lookup_accessor :: "json \<Rightarrow> thrown + jsarg" where
  "lookup_accessor param =
     (case ToString param of
        None \<Rightarrow> Inl TypeError
      | Some key \<Rightarrow> Inr (if key = ''__proto__'' then AFunction else AUndefined))"

definition Object_prototype :: "string \<Rightarrow> json \<Rightarrow> thrown + jsarg" where
  "Object_prototype name param =
     (if name = ''toString'' then Inr (AStr ''[object Object]'')
      else if name = ''toLocaleString'' then Inr (AStr ''[object Object]'')
      else if name = ''valueOf'' then Inr (AObject True)
      else if name = ''constructor'' then Inr (AObject (ToString param \<noteq> None))
      else if name = ''hasOwnProperty'' then has_own param
      else if name = ''propertyIsEnumerable'' then has_own param
      else if name = ''isPrototypeOf'' then Inr (ABool False)
      else if name = ''__lookupGetter__'' then lookup_accessor param
      else if name = ''__lookupSetter__'' then lookup_accessor param
      else Inl TypeError)"

definition supportedInkscapeOptions ::
  "env \<Rightarrow> string \<Rightarrow> string \<Rightarrow> json \<Rightarrow> thrown + jsarg" where
  "supportedInkscapeOptions env folder option param =
     (if option = ''export-png'' then map_sum id AStr (export_png folder param)
      else if option = ''export-area'' then map_sum id AStr (export_area env param)
      else if option = ''export-width'' then map_sum id AStr (export_width env param)
      else if option = ''export-height'' then map_sum id AStr (export_height env param)
      else Object_prototype option param)"

subsection \<open>The JSON job\<close>

text \<open>
  An image of the payload. \<open>inkscape\<close> is \<open>None\<close> when the property is missing
  (or otherwise falsy) and the object's properties when it is there; an object is
  truthy even when empty. \<open>jtext\<close> is the payload's \<^verbatim>\<open>text\<close>.
\<close>

record image =
  name :: string
  imageDataUrl :: string
  inkscape :: "(string \<times> json) list option"

record jsonData =
  jtext :: string
  images :: "image list"

text \<open>
  The first \<^verbatim>\<open>for (const img of jsonData.images)\<close> loop. \<open>None\<close> as first
  component: the loop ran to its end and the job goes on.
\<close>

fun imagesLoop :: "env \<Rightarrow> string \<Rightarrow> image list \<Rightarrow> io \<Rightarrow> settlement option \<times> io" where
  "imagesLoop env folder [] s = (None, s)"
| "imagesLoop env folder (img # imgs) s =
     (case dataUriRE env (imageDataUrl img) of
        None \<Rightarrow>
          (Some (Resolve (new_DownloadResult None (Some (ImageDataUrlExtractionFailed (name img))))),
           perform (RmdirRecursive folder) s)
      | Some (encoding, payload) \<Rightarrow>
          (case newBuffer env payload encoding of
             None \<Rightarrow> (Some Reject, s)
           | Some bytes \<Rightarrow>
               (let filePath = pathJoin env folder (name img);
                    (fileCreated, s1) = await env (WriteFile filePath (Buffer bytes)) s
                in if \<not> fileCreated
                   then (Some (Resolve (new_DownloadResult None None)),
                         perform (RmdirRecursive folder) s1)
                   else imagesLoop env folder imgs s1)))"

text \<open>
  The inner loop over \<^verbatim>\<open>Object.keys(img.inkscape)\<close> with its
  \<^verbatim>\<open>try\<close>/\<^verbatim>\<open>catch\<close>: the flags pushed so far, or what was caught.
\<close>

fun optionsLoop ::
  "env \<Rightarrow> string \<Rightarrow> (string \<times> json) list \<Rightarrow> jsarg list \<Rightarrow> thrown + jsarg list" where
  "optionsLoop env folder [] jsonInkscapeOptions = Inr jsonInkscapeOptions"
| "optionsLoop env folder ((option, param) # rest) jsonInkscapeOptions =
     (case supportedInkscapeOptions env folder option param of
        Inl err \<Rightarrow> Inl err
      | Inr flag \<Rightarrow> optionsLoop env folder rest (jsonInkscapeOptions @ [flag]))"

text \<open>
  \<^verbatim>\<open>options.concat(jsonInkscapeOptions).join()\<close> in the log line after a
  successful run converts every argument to a string; \<open>joins\<close> tells whether that
  succeeds for an argument.
\<close>

fun joins :: "jsarg \<Rightarrow> bool" where
  "joins (AObject ok) = ok"
| "joins a = True"

text \<open>
  The second loop over the images, which runs inkscape. When the log line after a
  successful run throws, the async job rejects.
\<close>

fun inkscapeLoop :: "env \<Rightarrow> string \<Rightarrow> image list \<Rightarrow> io \<Rightarrow> settlement option \<times> io" where
  "inkscapeLoop env folder [] s = (None, s)"
| "inkscapeLoop env folder (img # imgs) s =
     (case inkscape img of
        None \<Rightarrow> inkscapeLoop env folder imgs s
      | Some opts \<Rightarrow>
          (let imgPath = pathJoin env folder (name img)
           in case optionsLoop env folder opts [] of
                Inl err \<Rightarrow> (Some (Resolve (new_DownloadResult None None)), s)
              | Inr jsonInkscapeOptions \<Rightarrow>
                  (let options = [AStr ''--without-gui'', AStr (''--file='' @ imgPath)];
                       (success, s1) = await env (ExecuteCommand ''/usr/bin/inkscape''
                                                   (options @ jsonInkscapeOptions)) s
                   in if \<not> success then (Some (Resolve (new_DownloadResult None None)), s1)
                      else if \<not> list_all joins (options @ jsonInkscapeOptions)
                      then (Some Reject, s1)
                      else inkscapeLoop env folder imgs s1)))"

definition jsonJob :: "env \<Rightarrow> string \<Rightarrow> jsonData \<Rightarrow> string \<Rightarrow> io \<Rightarrow> settlement option \<times> io" where
  "jsonJob env folder data fileName s =
     (let (success, s1) = createFolder env folder s
      in if \<not> success then (Some (Resolve (new_DownloadResult None None)), s1)
         else
           (let filePath = pathJoin env folder fileName;
                (fileCreated, s2) = await env (WriteFile filePath (Text (jtext data))) s1
            in if \<not> fileCreated
               then (Some (Resolve (new_DownloadResult None None)), perform (Rmdir folder) s2)
               else
                 (case imagesLoop env folder (images data) s2 of
                    (Some r, s3) \<Rightarrow> (Some r, s3)
                  | (None, s3) \<Rightarrow>
                      (case inkscapeLoop env folder (images data) s3 of
                         (Some r, s4) \<Rightarrow> (Some r, s4)
                       | (None, s4) \<Rightarrow>
                           (Some (Resolve (new_DownloadResult (Some folder) None)), s4)))))"

subsection \<open>The factory methods\<close>

text \<open>
  A job closure is the job kind with the values it closed over; the first is always
  the folder name that \<^verbatim>\<open>_nextName()\<close> allocated.
\<close>

datatype job =
    TextJob string string string
  | GitJob string string
  | URLJob string string string
  | TarballJob string string
  | JsonJob string jsonData string

fun call_job :: "env \<Rightarrow> job \<Rightarrow> io \<Rightarrow> settlement option \<times> io" where
  "call_job env (TextJob folder text fileName) s = textJob env folder text fileName s"
| "call_job env (GitJob folder url) s = gitJob env folder url s"
| "call_job env (URLJob folder url fileName) s = urlJob env folder url fileName s"
| "call_job env (TarballJob folder tarballPath) s = tarballJob env folder tarballPath s"
| "call_job env (JsonJob folder data fileName) s = jsonJob env folder data fileName s"

definition createTextDownloader ::
  "env \<Rightarrow> DownloadManager \<Rightarrow> string \<Rightarrow> string \<Rightarrow> job Downloader \<times> DownloadManager" where
  "createTextDownloader env m text fileName =
     (let (folder, m1) = nextName env m in (new_Downloader (TextJob folder text fileName), m1))"

definition createGitDownloader ::
  "env \<Rightarrow> DownloadManager \<Rightarrow> string \<Rightarrow> job Downloader \<times> DownloadManager" where
  "createGitDownloader env m url =
     (let (folder, m1) = nextName env m in (new_Downloader (GitJob folder url), m1))"

definition createURLDownloader ::
  "env \<Rightarrow> DownloadManager \<Rightarrow> string \<Rightarrow> string \<Rightarrow> job Downloader \<times> DownloadManager" where
  "createURLDownloader env m url fileName =
     (let (folder, m1) = nextName env m in (new_Downloader (URLJob folder url fileName), m1))"

definition createTarballExtractor ::
  "env \<Rightarrow> DownloadManager \<Rightarrow> string \<Rightarrow> job Downloader \<times> DownloadManager" where
  "createTarballExtractor env m tarballPath =
     (let (folder, m1) = nextName env m in (new_Downloader (TarballJob folder tarballPath), m1))"

definition createJsonDownloader ::
  "env \<Rightarrow> DownloadManager \<Rightarrow> jsonData \<Rightarrow> string \<Rightarrow> job Downloader \<times> DownloadManager" where
  "createJsonDownloader env m data fileName =
     (let (folder, m1) = nextName env m in (new_Downloader (JsonJob folder data fileName), m1))"

text \<open>
  The three shapes of a result: a folder and no error, an error and no folder,
  neither.
\<close>

definition result_shape_ok :: "DownloadResult \<Rightarrow> bool" where
  "result_shape_ok r =
     (case (folderPath r, userError r) of (Some f, Some u) \<Rightarrow> False | _ \<Rightarrow> True)"

fun fulfilled :: "effect list \<Rightarrow> DownloadResult list" where
  "fulfilled [] = []"
| "fulfilled (Fulfill r # es) = r # fulfilled es"
| "fulfilled (e # es) = fulfilled es"

text \<open>
  A sample environment: every external call succeeds, paths are joined with a slash.
  It knows two data URIs, the base64 form of \<^verbatim>\<open><svg/>\<close> and a plain text with
  a \<^verbatim>\<open>charset\<close>, for which \<^verbatim>\<open>data-uri-regex\<close> gives \<^verbatim>\<open>charset=utf-8\<close> as
  group 3, which is no encoding that \<^verbatim>\<open>Buffer\<close> knows. Of the large numbers it
  knows the text of \<open>2^53\<close> and of the integers that round to it.
\<close>

definition env_ok :: env where
  "env_ok =
     \<lparr>answers = (\<lambda>n. True), events = [], pathJoin = (\<lambda>a b. a @ ''/'' @ b),
      dataUriRE = (\<lambda>u. if u = ''data:image/svg+xml;base64,PHN2Zy8+''
                        then Some (Some ''base64'', ''PHN2Zy8+'')
                        else if u = ''data:text/plain;charset=utf-8,hi''
                        then Some (Some ''charset=utf-8'', ''hi'')
                        else None),
      newBuffer = (\<lambda>d e. if d = ''PHN2Zy8+'' \<and> e = Some ''base64'' then Some ''<svg/>'' else None),
      bigNumber = (\<lambda>w. if w < 0 then ''-9007199254740992'' else ''9007199254740992'')\<rparr>"


text \<open>Strings of decimal digits, as \<open>show_nat\<close> produces them.\<close>

definition is_digits :: "string \<Rightarrow> bool" where
  "is_digits ds = (\<forall>c\<in>set ds. \<exists>d<10. c = digit d)"

section \<open>Properties of the lifecycle\<close>

lemma lifecycle_inv_new: "lifecycle_inv (new_world job)"
  by (simp add: lifecycle_inv_def new_world_def new_Downloader_def)

lemma lifecycle_inv_trigger:
  "lifecycle_inv w \<Longrightarrow> lifecycle_inv (snd (downloadIfNeeded w))"
  by (auto simp: lifecycle_inv_def downloadIfNeeded_def Let_def
           split: option.splits settlement.splits)

lemma lifecycle_inv_settle: "lifecycle_inv w \<Longrightarrow> lifecycle_inv (settle s w)"
  by (auto simp: lifecycle_inv_def settle_def split: option.splits settlement.splits)

lemma lifecycle_inv_dispose: "lifecycle_inv w \<Longrightarrow> lifecycle_inv (dispose w)"
  by (auto simp: lifecycle_inv_def dispose_def Let_def split: option.splits settlement.splits)

lemma trigger_returns_cached:
  "lifecycle_inv w \<Longrightarrow>
   fst (downloadIfNeeded w) = 1 \<and> downloadPromise (self (snd (downloadIfNeeded w))) = Some 1
   \<and> jobCalls (snd (downloadIfNeeded w)) = 1"
  by (auto simp: lifecycle_inv_def downloadIfNeeded_def Let_def split: option.splits)

lemma settle_keeps_promise:
  "downloadPromise (self (settle s w)) = downloadPromise (self w) \<and>
   jobCalls (settle s w) = jobCalls w"
  by (auto simp: settle_def split: settlement.splits)

lemma dispose_keeps_promise:
  "downloadPromise (self (dispose w)) = downloadPromise (self w) \<and>
   jobCalls (dispose w) = jobCalls w"
  by (auto simp: dispose_def Let_def split: option.splits)

lemma lifecycle_inv_step: "lifecycle_inv w \<Longrightarrow> lifecycle_inv (snd (step e w))"
  by (cases e)
     (simp_all add: step_def lifecycle_inv_trigger lifecycle_inv_settle lifecycle_inv_dispose)

lemma run_inv: "lifecycle_inv w \<Longrightarrow> lifecycle_inv (snd (run es w))"
  by (induction es arbitrary: w) (simp_all add: lifecycle_inv_step)

lemma step_triggered:
  "lifecycle_inv w \<Longrightarrow> downloadPromise (self w) = Some 1 \<Longrightarrow>
   set (fst (step e w)) \<subseteq> {1} \<and> downloadPromise (self (snd (step e w))) = Some 1
   \<and> jobCalls (snd (step e w)) = 1"
  by (cases e)
     (auto simp: step_def lifecycle_inv_def downloadIfNeeded_def settle_keeps_promise
        dispose_keeps_promise)

lemma run_triggered:
  "lifecycle_inv w \<Longrightarrow> downloadPromise (self w) = Some 1 \<Longrightarrow>
   set (fst (run es w)) \<subseteq> {1} \<and> downloadPromise (self (snd (run es w))) = Some 1
   \<and> jobCalls (snd (run es w)) = 1"
proof (induction es arbitrary: w)
  case Nil
  then show ?case by (simp add: lifecycle_inv_def)
next
  case (Cons e es)
  have s: "set (fst (step e w)) \<subseteq> {1}" "downloadPromise (self (snd (step e w))) = Some 1"
    using step_triggered [OF Cons.prems] by simp_all
  have "lifecycle_inv (snd (step e w))" by (rule lifecycle_inv_step [OF Cons.prems(1)])
  from Cons.IH [OF this s(2)] s(1) show ?case by simp
qed

lemma run_once:
  "lifecycle_inv w \<Longrightarrow> Trigger \<in> set es \<Longrightarrow>
   set (fst (run es w)) = {1} \<and> downloadPromise (self (snd (run es w))) = Some 1
   \<and> jobCalls (snd (run es w)) = 1"
proof (induction es arbitrary: w)
  case Nil
  then show ?case by simp
next
  case (Cons e es)
  have inv1: "lifecycle_inv (snd (step e w))" by (rule lifecycle_inv_step [OF Cons.prems(1)])
  show ?case
  proof (cases "e = Trigger")
    case True
    have a: "fst (step e w) = [1]" "downloadPromise (self (snd (step e w))) = Some 1"
      using trigger_returns_cached [OF Cons.prems(1)] True by (simp_all add: step_def)
    from run_triggered [OF inv1 a(2), of es] a(1) show ?thesis by auto
  next
    case False
    then have "Trigger \<in> set es" using Cons.prems(2) by simp
    from Cons.IH [OF inv1 this] False show ?thesis
      by (cases e) (simp_all add: step_def)
  qed
qed

lemma run_length: "length (fst (run es w)) = length (filter (\<lambda>e. e = Trigger) es)"
proof (induction es arbitrary: w)
  case Nil
  show ?case by simp
next
  case (Cons e es)
  then show ?case by (cases e) (simp_all add: step_def)
qed

text \<open>
  C1. Whatever the order of triggers, settlements and disposals, as soon as a
  Downloader has been triggered at least once its job has been invoked exactly once,
  every trigger call has returned the one cached promise, and when that promise's job
  resolved with a result, the Downloader that the promise yields carries exactly that
  result's \<open>folderPath\<close> and \<open>userError\<close>.
\<close>

theorem trigger_invokes_job_once:
  assumes "Trigger \<in> set es"
  shows "jobCalls (snd (run es (new_world job))) = 1
    \<and> (\<forall>p \<in> set (fst (run es (new_world job))).
          downloadPromise (self (snd (run es (new_world job)))) = Some p)
    \<and> length (fst (run es (new_world job))) = length (filter (\<lambda>e. e = Trigger) es)
    \<and> (\<forall>r. jobOutcome (snd (run es (new_world job))) = Some (Resolve r) \<longrightarrow>
          folderPath (self (snd (run es (new_world job)))) = folderPath r \<and>
          userError (self (snd (run es (new_world job)))) = userError r)"
proof -
  let ?w = "snd (run es (new_world job))"
  have once: "set (fst (run es (new_world job))) = {1}
      \<and> downloadPromise (self ?w) = Some 1 \<and> jobCalls ?w = 1"
    by (rule run_once [OF lifecycle_inv_new assms])
  have len: "length (fst (run es (new_world job))) = length (filter (\<lambda>e. e = Trigger) es)"
    by (rule run_length)
  have "lifecycle_inv ?w" by (rule run_inv [OF lifecycle_inv_new])
  then have res: "\<forall>r. jobOutcome ?w = Some (Resolve r) \<longrightarrow>
      folderPath (self ?w) = folderPath r \<and> userError (self ?w) = userError r"
    by (auto simp: lifecycle_inv_def)
  from once len res show ?thesis by auto
qed

theorem trigger_invokes_job_once_witness:
  "jobCalls (snd (run [Trigger, Settle (Resolve \<lparr>folderPath = Some ''/r/tmp_1'', userError = None\<rparr>),
        Trigger, Dispose, Trigger] (new_world ()))) = 1
   \<and> fst (run [Trigger, Settle (Resolve \<lparr>folderPath = Some ''/r/tmp_1'', userError = None\<rparr>),
        Trigger, Dispose, Trigger] (new_world ())) = [1, 1, 1]
   \<and> downloadPromise (self (snd (run [Trigger,
        Settle (Resolve \<lparr>folderPath = Some ''/r/tmp_1'', userError = None\<rparr>),
        Trigger, Dispose, Trigger] (new_world ())))) = Some 1
   \<and> folderPath (self (snd (run [Trigger,
        Settle (Resolve \<lparr>folderPath = Some ''/r/tmp_1'', userError = None\<rparr>),
        Trigger, Dispose, Trigger] (new_world ())))) = Some ''/r/tmp_1''"
  using trigger_invokes_job_once [of "[Trigger,
        Settle (Resolve \<lparr>folderPath = Some ''/r/tmp_1'', userError = None\<rparr>),
        Trigger, Dispose, Trigger]" "()"]
  by (simp add: step_def new_world_def new_Downloader_def downloadIfNeeded_def settle_def
      dispose_def)

lemma dispose_disposed: "disposed (self (dispose w))"
  by (simp add: dispose_def Let_def split: option.splits)

lemma step_after_dispose:
  "disposed (self w) \<Longrightarrow>
   disposed (self (snd (step e w))) \<and> cleanups (snd (step e w)) = cleanups w"
  by (cases e)
     (auto simp: step_def downloadIfNeeded_def settle_def dispose_def Let_def
        split: option.splits settlement.splits)

lemma run_after_dispose:
  "disposed (self w) \<Longrightarrow>
   disposed (self (snd (run es w))) \<and> cleanups (snd (run es w)) = cleanups w"
proof (induction es arbitrary: w)
  case Nil
  then show ?case by simp
next
  case (Cons e es)
  have d: "disposed (self (snd (step e w)))" "cleanups (snd (step e w)) = cleanups w"
    using step_after_dispose [OF Cons.prems] by simp_all
  from Cons.IH [OF d(1)] d(2) show ?case by simp
qed

lemma dislabedCleanup_step:
  "dislabedCleanup (self (snd (step e w))) = dislabedCleanup (self w)"
  by (cases e)
     (auto simp: step_def downloadIfNeeded_def settle_def dispose_def Let_def
        split: option.splits settlement.splits)

lemma dislabedCleanup_never_set: "\<not> dislabedCleanup (self (snd (run es (new_world job))))"
proof -
  have "dislabedCleanup (self (snd (run es w))) = dislabedCleanup (self w)" for w :: "'a world"
    by (induction es arbitrary: w) (simp_all add: dislabedCleanup_step)
  then show ?thesis by (simp add: new_world_def new_Downloader_def)
qed

text \<open>
  C2. \<open>dispose\<close> on a Downloader whose \<^verbatim>\<open>_dislabedCleanup\<close> is unset (no code
  of the file sets it, see \<open>dislabedCleanup_never_set\<close>): an already disposed Downloader
  is left exactly as it is; with no folder path (\<^verbatim>\<open>null\<close> or empty) nothing is
  deleted; otherwise \<^verbatim>\<open>utils.rmdirRecursive\<close> is called once on the folder path.
  A second \<open>dispose\<close> changes nothing at all, so two calls delete at most once, and
  after a disposal no later trigger, settlement or disposal makes the Downloader
  delete anything or become undisposed. The model of \<open>dispose\<close> has no failing
  outcome because the source's second call returns at its first guard.
\<close>

theorem dispose_idempotent_terminal:
  assumes "\<not> dislabedCleanup (self w)"
  shows "(disposed (self w) \<longrightarrow> dispose w = w)
    \<and> (\<not> disposed (self w) \<and> (folderPath (self w) = None \<or> folderPath (self w) = Some [])
         \<longrightarrow> cleanups (dispose w) = cleanups w)
    \<and> (\<forall>p. \<not> disposed (self w) \<and> folderPath (self w) = Some p \<and> p \<noteq> []
         \<longrightarrow> cleanups (dispose w) = cleanups w @ [p])
    \<and> dispose (dispose w) = dispose w
    \<and> length (cleanups (dispose (dispose w))) \<le> Suc (length (cleanups w))
    \<and> (\<forall>es. cleanups (snd (run es (dispose w))) = cleanups (dispose w)
           \<and> disposed (self (snd (run es (dispose w)))))"
proof -
  have 1: "disposed (self w) \<longrightarrow> dispose w = w"
    by (simp add: dispose_def)
  have 2: "\<not> disposed (self w) \<and> (folderPath (self w) = None \<or> folderPath (self w) = Some [])
      \<longrightarrow> cleanups (dispose w) = cleanups w"
    by (auto simp: dispose_def Let_def)
  have 3: "\<forall>p. \<not> disposed (self w) \<and> folderPath (self w) = Some p \<and> p \<noteq> []
      \<longrightarrow> cleanups (dispose w) = cleanups w @ [p]"
    using assms by (auto simp: dispose_def Let_def)
  have 4: "dispose (dispose w) = dispose w"
    using dispose_disposed [of w] by (simp add: dispose_def [of "dispose w"])
  have "length (cleanups (dispose w)) \<le> Suc (length (cleanups w))"
    by (auto simp: dispose_def Let_def split: option.splits)
  with 4 have 5: "length (cleanups (dispose (dispose w))) \<le> Suc (length (cleanups w))"
    by simp
  have 6: "\<forall>es. cleanups (snd (run es (dispose w))) = cleanups (dispose w)
      \<and> disposed (self (snd (run es (dispose w))))"
    using run_after_dispose [OF dispose_disposed [of w]] by simp
  from 1 2 3 4 5 6 show ?thesis by blast
qed

theorem dispose_idempotent_terminal_witness:
  "cleanups (dispose (settle (Resolve \<lparr>folderPath = Some ''/r/tmp_1'', userError = None\<rparr>)
      (snd (downloadIfNeeded (new_world ()))))) = [''/r/tmp_1'']
   \<and> cleanups (dispose (dispose (settle
      (Resolve \<lparr>folderPath = Some ''/r/tmp_1'', userError = None\<rparr>)
      (snd (downloadIfNeeded (new_world ())))))) = [''/r/tmp_1'']
   \<and> cleanups (dispose (new_world ())) = []"
  using dispose_idempotent_terminal [of "settle
      (Resolve \<lparr>folderPath = Some ''/r/tmp_1'', userError = None\<rparr>)
      (snd (downloadIfNeeded (new_world ())))"]
    dispose_idempotent_terminal [of "new_world ()"]
  by (simp add: new_world_def new_Downloader_def downloadIfNeeded_def settle_def)

text \<open>
  C10. Disposing a fresh Downloader marks it disposed and deletes nothing. A trigger
  after that still invokes the job (once), and when the job resolves, its result,
  folder path included, is stored on the Downloader. Whatever is called afterwards,
  the Downloader stays disposed and never calls \<^verbatim>\<open>utils.rmdirRecursive\<close>: the
  folder is not deleted through it.
\<close>

theorem early_dispose_leaks_folder:
  "disposed (self (dispose (new_world job)))
   \<and> cleanups (dispose (new_world job)) = []
   \<and> jobCalls (snd (run (Trigger # es) (dispose (new_world job)))) = 1
   \<and> folderPath (self (snd (run [Trigger, Settle (Resolve r)] (dispose (new_world job)))))
       = folderPath r
   \<and> cleanups (snd (run es' (dispose (new_world job)))) = []
   \<and> disposed (self (snd (run es' (dispose (new_world job)))))"
proof -
  let ?w = "dispose (new_world job)"
  have d: "disposed (self ?w)" by (rule dispose_disposed)
  have c: "cleanups ?w = []"
    by (simp add: dispose_def new_world_def new_Downloader_def)
  have inv: "lifecycle_inv ?w"
    by (rule lifecycle_inv_dispose [OF lifecycle_inv_new])
  have j: "jobCalls (snd (run (Trigger # es) ?w)) = 1"
    using run_once [OF inv, of "Trigger # es"] by simp
  have f: "folderPath (self (snd (run [Trigger, Settle (Resolve r)] ?w))) = folderPath r"
    by (simp add: step_def dispose_def new_world_def new_Downloader_def downloadIfNeeded_def
        settle_def)
  from d c j f run_after_dispose [OF d, of es'] show ?thesis by simp
qed

theorem early_dispose_leaks_folder_witness:
  "cleanups (snd (run [Trigger, Settle (Resolve \<lparr>folderPath = Some ''/r/tmp_1'', userError = None\<rparr>),
       Dispose, Dispose] (dispose (new_world ())))) = []
   \<and> folderPath (self (snd (run [Trigger,
       Settle (Resolve \<lparr>folderPath = Some ''/r/tmp_1'', userError = None\<rparr>)]
       (dispose (new_world ()))))) = Some ''/r/tmp_1''"
  using early_dispose_leaks_folder [of "()" "[]"
      "\<lparr>folderPath = Some ''/r/tmp_1'', userError = None\<rparr>"
      "[Trigger, Settle (Resolve \<lparr>folderPath = Some ''/r/tmp_1'', userError = None\<rparr>),
        Dispose, Dispose]"]
  by simp

section \<open>Properties of the jobs\<close>

lemma show_nat_404: "show_nat 404 = ''404''"
  by (simp add: show_nat.simps digit_def)

lemma shape_no_folder [simp]: "result_shape_ok (new_DownloadResult None u)"
  by (simp add: result_shape_ok_def new_DownloadResult_def)

lemma shape_no_error [simp]: "result_shape_ok (new_DownloadResult f None)"
  by (simp add: result_shape_ok_def new_DownloadResult_def split: option.splits)


lemma first_fulfilled_mem:
  "first_fulfilled es = Some (Resolve r) \<Longrightarrow> r \<in> set (fulfilled es)"
  by (induction es rule: first_fulfilled.induct) auto

lemma first_fulfilled_not_Reject: "first_fulfilled es \<noteq> Some Reject"
  by (induction es rule: first_fulfilled.induct) auto

lemma fulfilled_append: "fulfilled (xs @ ys) = fulfilled xs @ fulfilled ys"
  by (induction xs rule: fulfilled.induct) auto

lemma on_event_shape: "r \<in> set (fulfilled (on_event folder url ev)) \<Longrightarrow> result_shape_ok r"
  by (cases ev) (auto simp: on_event_def split: if_splits)

lemma handled_shape:
  "r \<in> set (fulfilled (concat (map (on_event folder url) evs))) \<Longrightarrow> result_shape_ok r"
  by (induction evs) (auto simp: fulfilled_append dest: on_event_shape)

lemma imagesLoop_shape:
  "imagesLoop env folder imgs s = (Some (Resolve r), s') \<Longrightarrow> result_shape_ok r"
  by (induction imgs arbitrary: s)
     (auto simp: Let_def split: option.splits prod.splits if_splits)

lemma inkscapeLoop_shape:
  "inkscapeLoop env folder imgs s = (Some (Resolve r), s') \<Longrightarrow> result_shape_ok r"
  by (induction imgs arbitrary: s)
     (auto simp: Let_def split: option.splits prod.splits if_splits sum.splits)

lemma textJob_shape: "fst (textJob env folder text fileName s) = Some (Resolve r) \<Longrightarrow> result_shape_ok r"
  by (auto simp: textJob_def createFolder_def await_def Let_def split: if_splits)

lemma gitJob_shape: "fst (gitJob env folder url s) = Some (Resolve r) \<Longrightarrow> result_shape_ok r"
  by (auto simp: gitJob_def await_def Let_def split: if_splits)

lemma tarballJob_shape: "fst (tarballJob env folder t s) = Some (Resolve r) \<Longrightarrow> result_shape_ok r"
  by (auto simp: tarballJob_def createFolder_def await_def Let_def split: if_splits)

lemma urlJob_shape: "fst (urlJob env folder url fileName s) = Some (Resolve r) \<Longrightarrow> result_shape_ok r"
  by (auto simp: urlJob_def createFolder_def await_def Let_def split: if_splits
        dest!: first_fulfilled_mem handled_shape)

lemma jsonJob_shape: "fst (jsonJob env folder data fileName s) = Some (Resolve r) \<Longrightarrow> result_shape_ok r"
  by (auto simp: jsonJob_def createFolder_def await_def Let_def split: if_splits prod.splits option.splits
        dest: imagesLoop_shape inkscapeLoop_shape)


text \<open>
  C3. Whatever the environment does, a result that any of the five jobs resolves
  with has one of the three shapes and never both a folder path and a user error;
  the same holds for every value a job passes to \<^verbatim>\<open>fulfill\<close>, also the ones
  the promise ignores because it is already settled.
\<close>

theorem results_have_valid_shape:
  "(fst (call_job env j s) = Some (Resolve r) \<longrightarrow> result_shape_ok r)
   \<and> (\<forall>r' \<in> set (fulfilled (effects (snd (call_job env j io0)))). result_shape_ok r')"
proof
  show "fst (call_job env j s) = Some (Resolve r) \<longrightarrow> result_shape_ok r"
    by (cases j)
       (auto dest: textJob_shape gitJob_shape urlJob_shape tarballJob_shape jsonJob_shape)
next
  have l1: "imagesLoop env f imgs t = (x, t') \<Longrightarrow> fulfilled (effects t') = fulfilled (effects t)"
    for f imgs t x t'
    by (induction imgs arbitrary: t)
       (auto simp: Let_def await_def perform_def fulfilled_append
          split: option.splits prod.splits if_splits)
  have l2: "inkscapeLoop env f imgs t = (x, t') \<Longrightarrow> fulfilled (effects t') = fulfilled (effects t)"
    for f imgs t x t'
    by (induction imgs arbitrary: t)
       (auto simp: Let_def await_def perform_def fulfilled_append
          split: option.splits prod.splits sum.splits if_splits)
  show "\<forall>r' \<in> set (fulfilled (effects (snd (call_job env j io0)))). result_shape_ok r'"
  proof (cases j)
    case (TextJob f t n)
    then show ?thesis
      by (auto simp: textJob_def createFolder_def await_def perform_def io0_def Let_def)
  next
    case (GitJob f u)
    then show ?thesis
      by (auto simp: gitJob_def await_def perform_def io0_def Let_def)
  next
    case (URLJob f u n)
    then show ?thesis
      by (auto simp: urlJob_def createFolder_def await_def perform_def io0_def Let_def
            fulfilled_append dest: handled_shape)
  next
    case (TarballJob f t)
    then show ?thesis
      by (auto simp: tarballJob_def createFolder_def await_def perform_def io0_def Let_def)
  next
    case (JsonJob f d n)
    have "fulfilled (effects (snd (jsonJob env f d n io0))) = []"
      by (auto simp: jsonJob_def createFolder_def await_def perform_def io0_def Let_def
            split: prod.splits option.splits dest!: l1 l2)
    with JsonJob show ?thesis by simp
  qed
qed


theorem results_have_valid_shape_witness:
  "fst (call_job (env_ok\<lparr>answers := (\<lambda>n. False)\<rparr>) (GitJob ''/r/tmp_1'' ''http://x/y'') io0)
     = Some (Resolve \<lparr>folderPath = None,
                       userError = Some ''failed to clone git repository http://x/y''\<rparr>)
   \<and> fulfilled (effects (snd (call_job (env_ok\<lparr>answers := (\<lambda>n. False)\<rparr>)
         (GitJob ''/r/tmp_1'' ''http://x/y'') io0)))
     = [\<lparr>folderPath = None, userError = Some ''failed to clone git repository http://x/y''\<rparr>]
   \<and> result_shape_ok \<lparr>folderPath = None,
                        userError = Some ''failed to clone git repository http://x/y''\<rparr>"
  using results_have_valid_shape [of "env_ok\<lparr>answers := (\<lambda>n. False)\<rparr>"
      "GitJob ''/r/tmp_1'' ''http://x/y''" io0
      "\<lparr>folderPath = None, userError = Some ''failed to clone git repository http://x/y''\<rparr>"]
  by (simp add: gitJob_def await_def perform_def io0_def env_ok_def new_DownloadResult_def
      GitCloneFailed_def Let_def)

text \<open>
  C4. URL job, once its folder has been created. If the response has a status code
  below 200 or from 400 on, the job resolves with no folder path and the
  bad-response message, which spells out the URL and the status code in decimal.
  If the status code is in \<open>[200, 400)\<close> and the file stream then finishes, the
  job resolves with the folder path and no error; that folder is the name the
  manager allocated, \<^verbatim>\<open>tmp_<id>\<close> under its root.
\<close>

theorem url_job_status:
  assumes "answers env (asked s)"
  shows "((statusCode < 200 \<or> 400 \<le> statusCode) \<and> events env = Response statusCode # rest \<longrightarrow>
            fst (urlJob env folder url fileName s) =
              Some (Resolve \<lparr>folderPath = None,
                     userError = Some (''failed to download URL '' @ url
                        @ '' - got response status '' @ show_int statusCode)\<rparr>))
       \<and> (200 \<le> statusCode \<and> statusCode < 400
            \<and> events env = Response statusCode # Finish # rest \<longrightarrow>
            fst (urlJob env folder url fileName s) =
              Some (Resolve \<lparr>folderPath = Some folder, userError = None\<rparr>))
       \<and> (fst (createURLDownloader env m url fileName)) =
            new_Downloader (URLJob (pathJoin env (mgr_folderPath m)
                                      (''tmp_'' @ show_nat (Suc (mgr_id m)))) url fileName)"
  using assms
  by (auto simp: urlJob_def createFolder_def await_def on_event_def new_DownloadResult_def
        LoadingBadResponse_def createURLDownloader_def nextName_def Let_def)

theorem url_job_status_witness:
  "fst (urlJob (env_ok\<lparr>events := [Response 404, Finish]\<rparr>) ''/r/tmp_1'' ''http://x/y''
         ''main.tex'' io0) =
     Some (Resolve \<lparr>folderPath = None,
        userError = Some ''failed to download URL http://x/y - got response status 404''\<rparr>)
   \<and> fst (urlJob (env_ok\<lparr>events := [Response 200, Finish]\<rparr>) ''/r/tmp_1'' ''http://x/y''
         ''main.tex'' io0) =
     Some (Resolve \<lparr>folderPath = Some ''/r/tmp_1'', userError = None\<rparr>)"
  using url_job_status [of "env_ok\<lparr>events := [Response 404, Finish]\<rparr>" io0 404 "[Finish]"
      "''/r/tmp_1''" "''http://x/y''" "''main.tex''" "new_DownloadManager ''/r''"]
    url_job_status [of "env_ok\<lparr>events := [Response 200, Finish]\<rparr>" io0 200 "[]"
      "''/r/tmp_1''" "''http://x/y''" "''main.tex''" "new_DownloadManager ''/r''"]
  by (simp add: env_ok_def io0_def show_int_def show_nat.simps digit_def new_DownloadManager_def)

text \<open>
  C5. A URL job whose response has status 404 and whose file stream then finishes:
  it resolves with the bad-response message, and the calls it made contain no
  \<^verbatim>\<open>utils.rmdirRecursive\<close>: the folder with the downloaded body stays. Only
  the \<^verbatim>\<open>error\<close> handler removes the folder (\<open>url_error_deletes_folder\<close>).
\<close>

theorem url_bad_status_keeps_folder:
  "urlJob (env_ok\<lparr>events := [Response 404, Finish]\<rparr>) ''/r/tmp_1'' ''http://x/y'' ''main.tex'' io0
     = (Some (Resolve \<lparr>folderPath = None,
          userError = Some ''failed to download URL http://x/y - got response status 404''\<rparr>),
        \<lparr>asked = 1,
         effects = [Mkdir ''/r/tmp_1'', CreateWriteStream ''/r/tmp_1/main.tex'',
                    RequestGet ''http://x/y'' 5000,
                    Fulfill \<lparr>folderPath = None, userError =
                      Some ''failed to download URL http://x/y - got response status 404''\<rparr>,
                    Fulfill \<lparr>folderPath = Some ''/r/tmp_1'', userError = None\<rparr>]\<rparr>)"
  by (simp add: urlJob_def createFolder_def await_def perform_def on_event_def
      new_DownloadResult_def LoadingBadResponse_def env_ok_def io0_def show_int_def
      show_nat.simps digit_def)

lemma url_error_deletes_folder:
  "answers env (asked s) \<Longrightarrow> events env = Error err # rest \<Longrightarrow>
   fst (urlJob env folder url fileName s) =
     Some (Resolve \<lparr>folderPath = None, userError = Some (LoadingError url err)\<rparr>)
   \<and> take 2 (drop (length (effects s) + 3) (effects (snd (urlJob env folder url fileName s)))) =
       [RmdirRecursive folder,
        Fulfill \<lparr>folderPath = None, userError = Some (LoadingError url err)\<rparr>]"
  by (simp add: urlJob_def createFolder_def await_def perform_def on_event_def
      new_DownloadResult_def)

text \<open>
  C6. Git job on a folder name that does not exist yet, with a clone that fails.
  The calls are exactly: the existence check, \<^verbatim>\<open>git clone --depth 1 url folder\<close>
  with a timeout of 120000 ms, and the \<^verbatim>\<open>fulfill\<close> of a result without folder
  path whose user error is the clone-failure message for the URL. No call removes
  the folder.
\<close>

theorem git_clone_failure:
  assumes "\<not> answers env (asked s)" and "\<not> answers env (Suc (asked s))"
  shows "gitJob env folder url s =
     (Some (Resolve \<lparr>folderPath = None,
                     userError = Some (''failed to clone git repository '' @ url)\<rparr>),
      s\<lparr>asked := Suc (Suc (asked s)),
        effects := effects s @
          [Exists folder,
           ExecFile ''git'' [''clone'', ''--depth'', ''1'', url, folder] (Some 120000),
           Fulfill \<lparr>folderPath = None,
                    userError = Some (''failed to clone git repository '' @ url)\<rparr>]\<rparr>)"
  using assms
  by (simp add: gitJob_def await_def perform_def new_DownloadResult_def GitCloneFailed_def
      minutes_def Let_def)

theorem git_clone_failure_witness:
  "gitJob (env_ok\<lparr>answers := (\<lambda>n. False)\<rparr>) ''/r/tmp_1'' ''http://x/y'' io0 =
     (Some (Resolve \<lparr>folderPath = None,
                     userError = Some ''failed to clone git repository http://x/y''\<rparr>),
      \<lparr>asked = 2,
       effects =
          [Exists ''/r/tmp_1'',
           ExecFile ''git'' [''clone'', ''--depth'', ''1'', ''http://x/y'', ''/r/tmp_1'']
             (Some 120000),
           Fulfill \<lparr>folderPath = None,
                    userError = Some ''failed to clone git repository http://x/y''\<rparr>]\<rparr>)"
  using git_clone_failure [of "env_ok\<lparr>answers := (\<lambda>n. False)\<rparr>" io0 "''/r/tmp_1''"
      "''http://x/y''"]
  by (simp add: env_ok_def io0_def)





text \<open>
  C8. A JSON job with one image whose options object has the single key
  \<^verbatim>\<open>toString\<close>. The key is none of the four supported options, but the lookup
  \<^verbatim>\<open>supportedInkscapeOptions['toString']\<close> finds the method inherited from
  \<^verbatim>\<open>Object.prototype\<close>, the call returns \<^verbatim>\<open>[object Object]\<close> instead of
  throwing, inkscape is run with that argument, and the job succeeds. For an option
  call that does throw, the job is aborted as stated (\<open>validation_failure_aborts\<close>,
  \<open>invalid_width_aborts\<close>), and a key that is neither supported nor a method of
  \<^verbatim>\<open>Object.prototype\<close> does throw (\<open>unknown_option_throws\<close>).
\<close>

theorem prototype_key_reaches_inkscape:
  "jsonJob env_ok ''/r/tmp_1''
     \<lparr>jtext = ''hello'',
      images = [\<lparr>name = ''a.svg'', imageDataUrl = ''data:image/svg+xml;base64,PHN2Zy8+'',
                  inkscape = Some [(''toString'', JInt 1)]\<rparr>]\<rparr>
     ''main.tex'' io0 =
   (Some (Resolve \<lparr>folderPath = Some ''/r/tmp_1'', userError = None\<rparr>),
    \<lparr>asked = 4,
     effects = [Mkdir ''/r/tmp_1'', WriteFile ''/r/tmp_1/main.tex'' (Text ''hello''),
                WriteFile ''/r/tmp_1/a.svg'' (Buffer ''<svg/>''),
                ExecuteCommand ''/usr/bin/inkscape''
                  [AStr ''--without-gui'', AStr ''--file=/r/tmp_1/a.svg'',
                   AStr ''[object Object]'']]\<rparr>)"
  by (simp add: jsonJob_def createFolder_def await_def perform_def env_ok_def io0_def
      new_DownloadResult_def supportedInkscapeOptions_def Object_prototype_def Let_def)

lemma invalid_width_aborts:
  "jsonJob env_ok ''/r/tmp_1''
     \<lparr>jtext = ''hello'',
      images = [\<lparr>name = ''a.svg'', imageDataUrl = ''data:image/svg+xml;base64,PHN2Zy8+'',
                  inkscape = Some [(''export-width'', JStr ''not-a-number'')]\<rparr>]\<rparr>
     ''main.tex'' io0 =
   (Some (Resolve \<lparr>folderPath = None, userError = None\<rparr>),
    \<lparr>asked = 3,
     effects = [Mkdir ''/r/tmp_1'', WriteFile ''/r/tmp_1/main.tex'' (Text ''hello''),
                WriteFile ''/r/tmp_1/a.svg'' (Buffer ''<svg/>'')]\<rparr>)"
  by (simp add: jsonJob_def createFolder_def await_def perform_def env_ok_def io0_def
      new_DownloadResult_def supportedInkscapeOptions_def export_width_def parseInt_def
      parseInt_string_def skipWhiteSpace.simps leadingWhiteSpace_def whiteSpace_def isDigit_def
      digitValue_def Let_def)

lemma optionsLoop_throws:
  "(option, param) \<in> set opts \<Longrightarrow> supportedInkscapeOptions env folder option param = Inl e \<Longrightarrow>
   \<exists>e'. optionsLoop env folder opts acc = Inl e'"
  by (induction opts arbitrary: acc) (auto split: sum.splits)

lemma validation_failure_aborts:
  "inkscape img = Some opts \<Longrightarrow> optionsLoop env folder opts [] = Inl err \<Longrightarrow>
   inkscapeLoop env folder (img # imgs) s = (Some (Resolve (new_DownloadResult None None)), s)"
  by simp

lemma unknown_option_throws:
  "option \<notin> set own_options \<Longrightarrow>
   option \<notin> set [''toString'', ''toLocaleString'', ''valueOf'', ''constructor'',
      ''hasOwnProperty'', ''propertyIsEnumerable'', ''isPrototypeOf'',
      ''__lookupGetter__'', ''__lookupSetter__''] \<Longrightarrow>
   supportedInkscapeOptions env folder option param = Inl TypeError"
  by (simp add: supportedInkscapeOptions_def Object_prototype_def own_options_def)

subsection \<open>What the option builders accept\<close>

lemma digit_cases: "d < 10 \<Longrightarrow> d \<in> {0, 1, 2, 3, 4, 5, 6, 7, 8, 9::nat}"
  by auto

lemma digit_props:
  assumes "d < 10"
  shows "digitValue 10 (digit d) = Some d" and "digit d \<in> set ''0123456789''"
    and "digit d \<notin> hd ` set whiteSpace"
    and "digit d \<notin> set ''+-xX''" and "digit d = CHR ''0'' \<longrightarrow> d = 0"
  using digit_cases [OF assms]
  by (auto simp: digit_def digitValue_def whiteSpace_def)

lemma show_nat_digits: "is_digits (show_nat n) \<and> show_nat n \<noteq> []"
proof (induction n rule: show_nat.induct)
  case (1 n)
  show ?case
  proof (cases "n < 10")
    case True
    then show ?thesis by (auto simp: show_nat.simps [of n] is_digits_def)
  next
    case False
    have "\<exists>d<10. digit (n mod 10) = digit d"
      by (rule exI [of _ "n mod 10"]) simp
    with False 1 show ?thesis
      by (auto simp: show_nat.simps [of n] is_digits_def)
  qed
qed

lemma mathInt_snoc:
  "mathInt R (xs @ [c]) = mathInt R xs * R + (case digitValue R c of None \<Rightarrow> 0 | Some v \<Rightarrow> v)"
  by (simp add: mathInt_def)

lemma mathInt_show_nat: "mathInt 10 (show_nat n) = n"
proof (induction n rule: show_nat.induct)
  case (1 n)
  show ?case
  proof (cases "n < 10")
    case True
    then show ?thesis
      by (simp add: show_nat.simps [of n] mathInt_def digit_props(1))
  next
    case False
    have "n mod 10 < 10" by simp
    then have "digitValue 10 (digit (n mod 10)) = Some (n mod 10)"
      by (rule digit_props(1))
    with False 1 show ?thesis
      by (simp add: show_nat.simps [of n] mathInt_snoc)
  qed
qed

lemma leadingWhiteSpace_None:
  assumes "s = [] \<or> hd s \<notin> hd ` set whiteSpace"
  shows "leadingWhiteSpace s = None"
proof -
  have "take (length w) s \<noteq> w" if w: "w \<in> set whiteSpace" for w
  proof
    assume t: "take (length w) s = w"
    from w have ne: "w \<noteq> []" by (auto simp: whiteSpace_def)
    with t have "s \<noteq> []" by auto
    with t ne have "hd s = hd w" by (cases s; cases w) auto
    with w assms \<open>s \<noteq> []\<close> show False by auto
  qed
  then show ?thesis
    by (auto simp: leadingWhiteSpace_def find_None_iff)
qed

lemma skipWhiteSpace_none: "leadingWhiteSpace s = None \<Longrightarrow> skipWhiteSpace s = s"
  by (simp add: skipWhiteSpace.simps [of s])

lemma decimal_char: "48 \<le> k \<Longrightarrow> k \<le> 57 \<Longrightarrow> char_of (k::nat) \<in> set ''0123456789''"
proof -
  assume "48 \<le> k" "k \<le> 57"
  then have "k \<in> {48, 49, 50, 51, 52, 53, 54, 55, 56, 57}"
    by (simp, arith)
  then show ?thesis
    by (auto simp: char_of_eq_iff)
qed

lemma isDigit_decimal: "isDigit 10 c = (c \<in> set ''0123456789'')"
proof
  assume "c \<in> set ''0123456789''"
  then show "isDigit 10 c"
    by (auto simp: isDigit_def digitValue_def)
next
  assume "isDigit 10 c"
  then have "48 \<le> (of_char c :: nat) \<and> (of_char c :: nat) \<le> 57"
    by (auto simp: isDigit_def digitValue_def Let_def split: if_splits option.splits)
  then have "char_of (of_char c :: nat) \<in> set ''0123456789''"
    by (intro decimal_char) simp_all
  then show "c \<in> set ''0123456789''"
    by simp
qed

lemma leadingWhiteSpace_prefix:
  "w \<in> set whiteSpace \<Longrightarrow> leadingWhiteSpace (w @ s) = Some w"
  unfolding leadingWhiteSpace_def whiteSpace_def set_simps insert_iff empty_iff
  by (elim disjE FalseE; simp)

lemma skipWhiteSpace_append:
  "set wss \<subseteq> set whiteSpace \<Longrightarrow> skipWhiteSpace (concat wss @ s) = skipWhiteSpace s"
proof (induction wss)
  case Nil
  show ?case by simp
next
  case (Cons w wss)
  then have w: "w \<in> set whiteSpace" by simp
  have "skipWhiteSpace (concat (w # wss) @ s) = skipWhiteSpace (concat wss @ s)"
    using leadingWhiteSpace_prefix [OF w, of "concat wss @ s"]
    by (simp add: skipWhiteSpace.simps [of "w @ concat wss @ s"])
  with Cons show ?case by simp
qed

lemma show_nat_set: "set (show_nat n) \<subseteq> set ''0123456789''"
proof
  fix c assume "c \<in> set (show_nat n)"
  with show_nat_digits [of n] obtain d where "d < 10" "c = digit d"
    by (auto simp: is_digits_def)
  then show "c \<in> set ''0123456789''"
    using digit_props(2) by simp
qed

lemma show_nat_cases:
  obtains "show_nat n = [digit n]" "n < 10"
  | c c' cs where "show_nat n = c # c' # cs" "c' \<in> set ''0123456789''"
proof (cases "n < 10")
  case True
  then have "show_nat n = [digit n]" by (simp add: show_nat.simps [of n])
  with True that(1) show ?thesis by blast
next
  case False
  then have s: "show_nat n = show_nat (n div 10) @ [digit (n mod 10)]"
    by (simp add: show_nat.simps [of n])
  obtain c cs0 where c: "show_nat (n div 10) = c # cs0"
    using show_nat_digits [of "n div 10"] by (cases "show_nat (n div 10)") auto
  obtain c' cs where cs: "cs0 @ [digit (n mod 10)] = c' # cs"
    by (cases "cs0 @ [digit (n mod 10)]") auto
  have "c' \<in> set (show_nat n)"
    using s c cs by (metis append_Cons list.set_intros(1,2))
  then have "c' \<in> set ''0123456789''"
    using show_nat_set by blast
  moreover have "show_nat n = c # c' # cs"
    using s c cs by simp
  ultimately show ?thesis using that(2) by blast
qed

lemma show_nat_no_hex:
  assumes "n = 0 \<longrightarrow> rest = [] \<or> hd rest \<notin> set ''xX''"
  shows "take 2 (show_nat n @ rest) \<noteq> ''0x''" and "take 2 (show_nat n @ rest) \<noteq> ''0X''"
proof -
  show "take 2 (show_nat n @ rest) \<noteq> ''0x''"
  proof (cases n rule: show_nat_cases)
    case 1
    show ?thesis
    proof
      assume h: "take 2 (show_nat n @ rest) = ''0x''"
      with 1 have "digit n = CHR ''0''" and r: "take 1 rest = ''x''"
        by (simp_all add: numeral_2_eq_2)
      then have "n = 0" using digit_props(5) [OF 1(2)] by simp
      moreover from r have "rest \<noteq> []" "hd rest = CHR ''x''"
        by (cases rest; simp)+
      ultimately show False using assms by simp
    qed
  next
    case (2 c c' cs)
    then show ?thesis by auto
  qed
  show "take 2 (show_nat n @ rest) \<noteq> ''0X''"
  proof (cases n rule: show_nat_cases)
    case 1
    show ?thesis
    proof
      assume h: "take 2 (show_nat n @ rest) = ''0X''"
      with 1 have "digit n = CHR ''0''" and r: "take 1 rest = ''X''"
        by (simp_all add: numeral_2_eq_2)
      then have "n = 0" using digit_props(5) [OF 1(2)] by simp
      moreover from r have "rest \<noteq> []" "hd rest = CHR ''X''"
        by (cases rest; simp)+
      ultimately show False using assms by simp
    qed
  next
    case (2 c c' cs)
    then show ?thesis by auto
  qed
qed

lemma takeWhile_show_nat:
  assumes "rest = [] \<or> hd rest \<notin> set ''0123456789''"
  shows "takeWhile (isDigit 10) (show_nat n @ rest) = show_nat n"
proof -
  have "isDigit 10 x" if "x \<in> set (show_nat n)" for x
    using subsetD [OF show_nat_set that] by (simp only: isDigit_decimal)
  then have "takeWhile (isDigit 10) (show_nat n @ rest) = show_nat n @ takeWhile (isDigit 10) rest"
    by (rule takeWhile_append2)
  moreover have "takeWhile (isDigit 10) rest = []"
    using assms by (simp only: takeWhile_eq_Nil_iff isDigit_decimal)
  ultimately show ?thesis by simp
qed

lemma show_nat_head:
  obtains c cs where "show_nat n = c # cs" "c \<in> set ''0123456789''"
proof -
  obtain c cs where c: "show_nat n = c # cs"
    using show_nat_digits [of n] by (cases "show_nat n") simp_all
  then have "c \<in> set (show_nat n)" by simp
  then have "c \<in> set ''0123456789''" by (rule subsetD [OF show_nat_set])
  with c that show ?thesis by blast
qed

lemma decimal_not_whiteSpace: "c \<in> set ''0123456789+-'' \<Longrightarrow> c \<notin> hd ` set whiteSpace"
  unfolding whiteSpace_def set_simps insert_iff empty_iff image_insert image_empty list.sel
  by (elim disjE FalseE; simp)

lemma parseInt_string_decimal:
  assumes ws: "set wss \<subseteq> set whiteSpace"
    and sg: "sg = [] \<or> sg = ''+'' \<or> sg = ''-''"
    and rest: "rest = [] \<or> hd rest \<notin> set ''0123456789''"
    and hex: "n = 0 \<longrightarrow> rest = [] \<or> hd rest \<notin> set ''xX''"
  shows "parseInt_string (concat wss @ sg @ show_nat n @ rest)
           = Some (if sg = ''-'' then - int n else int n)"
proof -
  obtain c cs where c: "show_nat n = c # cs" "c \<in> set ''0123456789''"
    by (rule show_nat_head)
  have "c \<in> set (''0123456789'' @ ''+-'')"
    using c(2) unfolding set_append by (rule UnI1)
  then have "c \<in> set ''0123456789+-''"
    by simp
  moreover have "CHR ''+'' \<in> set ''0123456789+-''" "CHR ''-'' \<in> set ''0123456789+-''"
    by simp_all
  ultimately have "hd (sg @ show_nat n @ rest) \<in> set ''0123456789+-''"
    using sg c(1) by (elim disjE) simp_all
  then have "hd (sg @ show_nat n @ rest) \<notin> hd ` set whiteSpace"
    by (rule decimal_not_whiteSpace)
  then have "leadingWhiteSpace (sg @ show_nat n @ rest) = None"
    by (intro leadingWhiteSpace_None disjI2)
  then have S: "skipWhiteSpace (concat wss @ sg @ show_nat n @ rest) = sg @ show_nat n @ rest"
    using skipWhiteSpace_append [OF ws, of "sg @ show_nat n @ rest"]
    by (simp add: skipWhiteSpace_none)
  have "c \<noteq> CHR ''-''" "c \<noteq> CHR ''+''"
    using c(2) by auto
  then have nosign: "take 1 (show_nat n @ rest) \<noteq> ''-''" "take 1 (show_nat n @ rest) \<noteq> ''+''"
    using c(1) by simp_all
  have ne: "show_nat n \<noteq> []" using c by simp
  note facts = S nosign ne show_nat_no_hex [OF hex] takeWhile_show_nat [OF rest]
    mathInt_show_nat
  from sg show ?thesis
  proof (elim disjE)
    assume "sg = []"
    then show ?thesis using facts by (simp add: parseInt_string_def Let_def)
  next
    assume "sg = ''+''"
    then show ?thesis using facts by (simp add: parseInt_string_def Let_def)
  next
    assume "sg = ''-''"
    then show ?thesis using facts by (simp add: parseInt_string_def Let_def)
  qed
qed

lemma not_decimal:
  assumes "junk = [] \<or> hd junk \<notin> set ''0123456789''"
  shows "takeWhile (isDigit 10) junk = []" and "take 2 junk \<noteq> ''0x''" and "take 2 junk \<noteq> ''0X''"
proof -
  show "takeWhile (isDigit 10) junk = []"
    using assms by (simp only: takeWhile_eq_Nil_iff isDigit_decimal)
  show "take 2 junk \<noteq> ''0x''" "take 2 junk \<noteq> ''0X''"
    using assms by (cases junk; simp add: numeral_2_eq_2)+
qed

lemma parseInt_string_NaN_unsigned:
  assumes ws: "set wss \<subseteq> set whiteSpace"
    and junk: "junk = [] \<or> hd junk \<notin> set ''0123456789''"
    and l: "leadingWhiteSpace junk = None"
    and j: "junk = [] \<or> hd junk \<notin> set ''+-''"
  shows "parseInt_string (concat wss @ junk) = None"
proof -
  have S: "skipWhiteSpace (concat wss @ junk) = junk"
    using skipWhiteSpace_append [OF ws, of junk] l by (simp add: skipWhiteSpace_none)
  have nosign: "take 1 junk \<noteq> ''-''" "take 1 junk \<noteq> ''+''"
    using j by (cases junk; simp)+
  show ?thesis
    using nosign not_decimal [OF junk] by (simp add: parseInt_string_def Let_def S)
qed

lemma parseInt_string_NaN_signed:
  assumes ws: "set wss \<subseteq> set whiteSpace"
    and junk: "junk = [] \<or> hd junk \<notin> set ''0123456789''"
    and sg: "sg = ''+'' \<or> sg = ''-''"
  shows "parseInt_string (concat wss @ sg @ junk) = None"
proof -
  have "hd (sg @ junk) \<in> set ''0123456789+-''"
    using sg by (elim disjE) simp_all
  then have "hd (sg @ junk) \<notin> hd ` set whiteSpace"
    by (rule decimal_not_whiteSpace)
  then have "leadingWhiteSpace (sg @ junk) = None"
    by (intro leadingWhiteSpace_None disjI2)
  then have S: "skipWhiteSpace (concat wss @ sg @ junk) = sg @ junk"
    using skipWhiteSpace_append [OF ws, of "sg @ junk"] by (simp add: skipWhiteSpace_none)
  from sg show ?thesis
  proof (elim disjE)
    assume "sg = ''+''"
    then show ?thesis
      using S not_decimal [OF junk] by (simp add: parseInt_string_def Let_def)
  next
    assume "sg = ''-''"
    then show ?thesis
      using S not_decimal [OF junk] by (simp add: parseInt_string_def Let_def)
  qed
qed

lemma parseInt_text:
  "p = JStr t \<or> p = JNum t \<Longrightarrow> parseInt (Some p) = Inr (parseInt_string t)"
  by (auto simp: parseInt_def)

lemma parseInt_show_int: "parseInt_string (show_int i) = Some i"
proof (cases "i < 0")
  case True
  have "parseInt_string (concat [] @ ''-'' @ show_nat (nat (- i)) @ []) = Some (- int (nat (- i)))"
    using parseInt_string_decimal [of "[]" "''-''" "[]" "nat (- i)"] by simp
  with True show ?thesis by (simp add: show_int_def)
next
  case False
  have "parseInt_string (concat [] @ [] @ show_nat (nat i) @ []) = Some (int (nat i))"
    using parseInt_string_decimal [of "[]" "[]" "[]" "nat i"] by simp
  with False show ?thesis by (simp add: show_int_def)
qed

lemma parseInt_JInt: "parseInt (Some (JInt n)) = Inr (Some n)"
  by (simp add: parseInt_def JInt_def parseInt_show_int)

lemma parseInt_string_other:
  assumes "c \<notin> set ''0123456789''" "c \<notin> set ''+-''" "c \<notin> hd ` set whiteSpace"
  shows "parseInt_string (c # cs) = None"
proof -
  have "leadingWhiteSpace (c # cs) = None"
    using assms(3) by (intro leadingWhiteSpace_None) simp
  then show ?thesis
    using parseInt_string_NaN_unsigned [of "[]" "c # cs"] assms(1,2) by simp
qed

lemma parseInt_string_empty: "parseInt_string [] = None"
  using parseInt_string_NaN_unsigned [of "[]" "[]"] leadingWhiteSpace_None [of "[]"] by simp

lemma parseInt_rejects:
  "parseInt (Some JNull) = Inr None" "parseInt (Some (JBool b)) = Inr None"
  "parseInt (Some (JObj kvs)) = Inr None \<or> parseInt (Some (JObj kvs)) = Inl TypeError"
  "parseInt None = Inr None"
  by (simp_all add: parseInt_def parseInt_string_other whiteSpace_def)

lemma width_height_of_parse:
  "parseInt (Some p) = Inr (Some w) \<Longrightarrow> \<bar>w\<bar> < 2 ^ 53 \<Longrightarrow>
   export_width env p = Inr (''--export-width='' @ show_int w)
   \<and> export_height env p = Inr (''--export-height='' @ show_int w)"
  by (simp add: export_width_def export_height_def number_text_def)

lemma width_height_raise:
  "parseInt (Some p) = Inr None \<or> parseInt (Some p) = Inl TypeError \<Longrightarrow>
   (\<exists>e. export_width env p = Inl e) \<and> (\<exists>e. export_height env p = Inl e)"
  by (auto simp: export_width_def export_height_def)

lemma area_of_integers:
  assumes "map_of kvs ''x0'' = Some (JInt a)" "map_of kvs ''y0'' = Some (JInt b)"
    "map_of kvs ''x1'' = Some (JInt c)" "map_of kvs ''y1'' = Some (JInt d)"
    "\<bar>a\<bar> < 2 ^ 53" "\<bar>b\<bar> < 2 ^ 53" "\<bar>c\<bar> < 2 ^ 53" "\<bar>d\<bar> < 2 ^ 53"
  shows "export_area env (JObj kvs) =
     Inr (''--export-area='' @ show_int a @ '':'' @ show_int b @ '':'' @ show_int c
            @ '':'' @ show_int d)"
  using assms
  by (simp add: export_area_def area_bound_def get_field_def parseInt_JInt number_text_def)

lemma area_raises_for_non_object:
  "p = JNull \<or> (\<exists>b. p = JBool b) \<or> (\<exists>t. p = JNum t) \<or> (\<exists>t. p = JStr t) \<or> (\<exists>xs. p = JArr xs)
   \<Longrightarrow> \<exists>e. export_area env p = Inl e"
  by (auto simp: export_area_def area_bound_def get_field_def parseInt_rejects(4))

lemma export_png_string:
  "((\<exists>flag. export_png folder p = Inr flag) = (\<exists>f. p = JStr f))
   \<and> export_png folder (JStr f) = Inr (''--export-png='' @ folder @ ''/'' @ f)"
  by (cases p) (simp_all add: export_png_def)

lemma area_accepts_iff:
  "(\<exists>flag. export_area env (JObj kvs) = Inr flag) =
     ((\<exists>q flag. map_of kvs ''x0'' = Some q \<and> export_width env q = Inr flag)
      \<and> (\<exists>q flag. map_of kvs ''y0'' = Some q \<and> export_width env q = Inr flag)
      \<and> (\<exists>q flag. map_of kvs ''x1'' = Some q \<and> export_width env q = Inr flag)
      \<and> (\<exists>q flag. map_of kvs ''y1'' = Some q \<and> export_width env q = Inr flag))"
proof -
  have bound: "(\<exists>w. area_bound (JObj kvs) k = Inr (Some w)) =
      (\<exists>q flag. map_of kvs k = Some q \<and> export_width env q = Inr flag)" for k
    using parseInt_rejects(4)
    by (cases "map_of kvs k")
       (auto simp: area_bound_def get_field_def export_width_def split: sum.splits option.splits)
  have "(\<exists>flag. export_area env (JObj kvs) = Inr flag) =
      ((\<exists>w. area_bound (JObj kvs) ''x0'' = Inr (Some w))
       \<and> (\<exists>w. area_bound (JObj kvs) ''y0'' = Inr (Some w))
       \<and> (\<exists>w. area_bound (JObj kvs) ''x1'' = Inr (Some w))
       \<and> (\<exists>w. area_bound (JObj kvs) ''y1'' = Inr (Some w)))"
    by (auto simp: export_area_def split: sum.splits option.splits)
  then show ?thesis by (simp only: bound)
qed

text \<open>
  The width builder reads the string \<^verbatim>\<open>12px\<close>, which is not an integer, as 12
  and produces a flag; it does the same for the number 12.5
  (\<open>export_width_truncates_fraction\<close> below).
\<close>

theorem export_width_accepts_non_integer:
  "export_width env_ok (JStr ''12px'') = Inr ''--export-width=12''"
proof -
  have "parseInt_string (concat [] @ [] @ show_nat 12 @ ''px'') = Some (int 12)"
    using parseInt_string_decimal [of "[]" "[]" "''px''" 12] by simp
  then have "parseInt (Some (JStr ''12px'')) = Inr (Some 12)"
    by (simp add: parseInt_def show_nat.simps digit_def)
  from width_height_of_parse [OF this, of env_ok] show ?thesis
    by (simp add: show_int_def show_nat.simps digit_def)
qed

lemma export_width_truncates_fraction:
  "export_width env (JNum ''12.5'') = Inr ''--export-width=12''"
proof -
  have "parseInt_string (concat [] @ [] @ show_nat 12 @ ''.5'') = Some (int 12)"
    using parseInt_string_decimal [of "[]" "[]" "''.5''" 12] by simp
  then have "parseInt (Some (JNum ''12.5'')) = Inr (Some 12)"
    by (simp add: parseInt_def show_nat.simps digit_def)
  from width_height_of_parse [OF this, of env] show ?thesis
    by (simp add: show_int_def show_nat.simps digit_def)
qed

text \<open>
  C9, amended. \<^verbatim>\<open>export-png\<close> produces a flag exactly for a string parameter,
  the flag with the folder and the file name. \<^verbatim>\<open>export-width\<close> and
  \<^verbatim>\<open>export-height\<close> produce the flag with \<open>i\<close> for every integer \<open>i\<close> of a
  magnitude below \<open>2^53\<close>, and \<^verbatim>\<open>export-area\<close> the flag with four such
  integers. Integers are not all they accept: a string or a number whose text is
  white space (possibly none), an optional sign, the decimal digits of an \<open>n\<close> below
  \<open>2^53\<close> and then nothing or something that does not start with a digit (nor,
  after a lone zero, with \<^verbatim>\<open>x\<close> or \<^verbatim>\<open>X\<close>) gives the flag with \<open>n\<close> and
  its sign. They raise a validation failure for \<^verbatim>\<open>null\<close>, booleans, objects,
  and every string or number whose text has no decimal digit after its leading
  white space and an optional sign. \<^verbatim>\<open>export-area\<close> produces a flag for an
  object exactly when each of \<^verbatim>\<open>x0\<close>, \<^verbatim>\<open>y0\<close>, \<^verbatim>\<open>x1\<close>,
  \<^verbatim>\<open>y1\<close> is a property with a value that \<^verbatim>\<open>export-width\<close> accepts, and
  raises a validation failure for every parameter that is not an object.
\<close>

theorem option_builders_validation:
  "((\<exists>flag. export_png folder p = Inr flag) = (\<exists>f. p = JStr f))
   \<and> export_png folder (JStr f) = Inr (''--export-png='' @ folder @ ''/'' @ f)
   \<and> (\<bar>i\<bar> < 2 ^ 53 \<longrightarrow>
        export_width env (JInt i) = Inr (''--export-width='' @ show_int i)
        \<and> export_height env (JInt i) = Inr (''--export-height='' @ show_int i))
   \<and> (map_of kvs ''x0'' = Some (JInt a) \<and> map_of kvs ''y0'' = Some (JInt b)
        \<and> map_of kvs ''x1'' = Some (JInt c) \<and> map_of kvs ''y1'' = Some (JInt d)
        \<and> \<bar>a\<bar> < 2 ^ 53 \<and> \<bar>b\<bar> < 2 ^ 53 \<and> \<bar>c\<bar> < 2 ^ 53 \<and> \<bar>d\<bar> < 2 ^ 53 \<longrightarrow>
        export_area env (JObj kvs) =
          Inr (''--export-area='' @ show_int a @ '':'' @ show_int b @ '':'' @ show_int c
                 @ '':'' @ show_int d))
   \<and> (set wss \<subseteq> set whiteSpace \<and> (sg = [] \<or> sg = ''+'' \<or> sg = ''-'')
        \<and> (rest = [] \<or> hd rest \<notin> set ''0123456789'')
        \<and> (n = 0 \<longrightarrow> rest = [] \<or> hd rest \<notin> set ''xX'') \<and> n < 2 ^ 53
        \<and> t = concat wss @ sg @ show_nat n @ rest \<and> (v = JStr t \<or> v = JNum t) \<longrightarrow>
        export_width env v =
          Inr (''--export-width='' @ show_int (if sg = ''-'' then - int n else int n))
        \<and> export_height env v =
          Inr (''--export-height='' @ show_int (if sg = ''-'' then - int n else int n)))
   \<and> (u = JNull \<or> (\<exists>bool. u = JBool bool) \<or> (\<exists>props. u = JObj props)
        \<or> ((u = JStr t' \<or> u = JNum t') \<and> t' = concat wss' @ sg' @ junk
            \<and> set wss' \<subseteq> set whiteSpace \<and> (junk = [] \<or> hd junk \<notin> set ''0123456789'')
            \<and> ((sg' = [] \<and> leadingWhiteSpace junk = None \<and> (junk = [] \<or> hd junk \<notin> set ''+-''))
                 \<or> sg' = ''+'' \<or> sg' = ''-'')) \<longrightarrow>
        (\<exists>e. export_width env u = Inl e) \<and> (\<exists>e. export_height env u = Inl e))
   \<and> ((\<exists>flag. export_area env (JObj kvs') = Inr flag) =
        ((\<exists>q flag. map_of kvs' ''x0'' = Some q \<and> export_width env q = Inr flag)
         \<and> (\<exists>q flag. map_of kvs' ''y0'' = Some q \<and> export_width env q = Inr flag)
         \<and> (\<exists>q flag. map_of kvs' ''x1'' = Some q \<and> export_width env q = Inr flag)
         \<and> (\<exists>q flag. map_of kvs' ''y1'' = Some q \<and> export_width env q = Inr flag)))
   \<and> (z = JNull \<or> (\<exists>bool. z = JBool bool) \<or> (\<exists>text. z = JNum text) \<or> (\<exists>text. z = JStr text)
        \<or> (\<exists>xs. z = JArr xs) \<longrightarrow> (\<exists>e. export_area env z = Inl e))"
proof -
  note 1 = export_png_string [of folder p f]
  have 2: "\<bar>i\<bar> < 2 ^ 53 \<longrightarrow>
        export_width env (JInt i) = Inr (''--export-width='' @ show_int i)
        \<and> export_height env (JInt i) = Inr (''--export-height='' @ show_int i)"
    using width_height_of_parse [OF parseInt_JInt] by blast
  have 3: "map_of kvs ''x0'' = Some (JInt a) \<and> map_of kvs ''y0'' = Some (JInt b)
        \<and> map_of kvs ''x1'' = Some (JInt c) \<and> map_of kvs ''y1'' = Some (JInt d)
        \<and> \<bar>a\<bar> < 2 ^ 53 \<and> \<bar>b\<bar> < 2 ^ 53 \<and> \<bar>c\<bar> < 2 ^ 53 \<and> \<bar>d\<bar> < 2 ^ 53 \<longrightarrow>
        export_area env (JObj kvs) =
          Inr (''--export-area='' @ show_int a @ '':'' @ show_int b @ '':'' @ show_int c
                 @ '':'' @ show_int d)"
    using area_of_integers [of kvs a b c d env] by blast
  have 4: "set wss \<subseteq> set whiteSpace \<and> (sg = [] \<or> sg = ''+'' \<or> sg = ''-'')
        \<and> (rest = [] \<or> hd rest \<notin> set ''0123456789'')
        \<and> (n = 0 \<longrightarrow> rest = [] \<or> hd rest \<notin> set ''xX'') \<and> n < 2 ^ 53
        \<and> t = concat wss @ sg @ show_nat n @ rest \<and> (v = JStr t \<or> v = JNum t) \<longrightarrow>
        export_width env v =
          Inr (''--export-width='' @ show_int (if sg = ''-'' then - int n else int n))
        \<and> export_height env v =
          Inr (''--export-height='' @ show_int (if sg = ''-'' then - int n else int n))"
  proof (intro impI, elim conjE)
    assume h: "set wss \<subseteq> set whiteSpace" "sg = [] \<or> sg = ''+'' \<or> sg = ''-''"
      "rest = [] \<or> hd rest \<notin> set ''0123456789''" "n = 0 \<longrightarrow> rest = [] \<or> hd rest \<notin> set ''xX''"
      and n: "n < 2 ^ 53" and t: "t = concat wss @ sg @ show_nat n @ rest"
      and v: "v = JStr t \<or> v = JNum t"
    let ?w = "if sg = ''-'' then - int n else int n"
    have "parseInt (Some v) = Inr (Some ?w)"
      using parseInt_text [OF v] parseInt_string_decimal [OF h] t by simp
    moreover have "\<bar>?w\<bar> < 2 ^ 53"
      using n by simp
    ultimately show "export_width env v = Inr (''--export-width='' @ show_int ?w)
        \<and> export_height env v = Inr (''--export-height='' @ show_int ?w)"
      by (rule width_height_of_parse)
  qed
  have 5: "u = JNull \<or> (\<exists>bool. u = JBool bool) \<or> (\<exists>props. u = JObj props)
        \<or> ((u = JStr t' \<or> u = JNum t') \<and> t' = concat wss' @ sg' @ junk
            \<and> set wss' \<subseteq> set whiteSpace \<and> (junk = [] \<or> hd junk \<notin> set ''0123456789'')
            \<and> ((sg' = [] \<and> leadingWhiteSpace junk = None \<and> (junk = [] \<or> hd junk \<notin> set ''+-''))
                 \<or> sg' = ''+'' \<or> sg' = ''-'')) \<longrightarrow>
        (\<exists>e. export_width env u = Inl e) \<and> (\<exists>e. export_height env u = Inl e)"
  proof
    assume "u = JNull \<or> (\<exists>bool. u = JBool bool) \<or> (\<exists>props. u = JObj props)
        \<or> ((u = JStr t' \<or> u = JNum t') \<and> t' = concat wss' @ sg' @ junk
            \<and> set wss' \<subseteq> set whiteSpace \<and> (junk = [] \<or> hd junk \<notin> set ''0123456789'')
            \<and> ((sg' = [] \<and> leadingWhiteSpace junk = None \<and> (junk = [] \<or> hd junk \<notin> set ''+-''))
                 \<or> sg' = ''+'' \<or> sg' = ''-''))"
    then consider (null) "u = JNull" | (bool) bool where "u = JBool bool"
      | (obj) props where "u = JObj props"
      | (unsigned) "u = JStr t' \<or> u = JNum t'" "t' = concat wss' @ junk"
          "set wss' \<subseteq> set whiteSpace" "junk = [] \<or> hd junk \<notin> set ''0123456789''"
          "leadingWhiteSpace junk = None" "junk = [] \<or> hd junk \<notin> set ''+-''"
      | (signed) "u = JStr t' \<or> u = JNum t'" "t' = concat wss' @ sg' @ junk"
          "set wss' \<subseteq> set whiteSpace" "junk = [] \<or> hd junk \<notin> set ''0123456789''"
          "sg' = ''+'' \<or> sg' = ''-''"
      by (elim disjE conjE exE) simp_all
    then have "parseInt (Some u) = Inr None \<or> parseInt (Some u) = Inl TypeError"
    proof cases
      case null
      then show ?thesis by (simp add: parseInt_rejects(1))
    next
      case bool
      then show ?thesis by (simp add: parseInt_rejects(2))
    next
      case obj
      then show ?thesis using parseInt_rejects(3) by simp
    next
      case unsigned
      then show ?thesis
        using parseInt_text [OF unsigned(1)] parseInt_string_NaN_unsigned [of wss' junk] by simp
    next
      case signed
      then show ?thesis
        using parseInt_text [OF signed(1)] parseInt_string_NaN_signed [of wss' junk sg'] by simp
    qed
    then show "(\<exists>e. export_width env u = Inl e) \<and> (\<exists>e. export_height env u = Inl e)"
      by (rule width_height_raise)
  qed
  note 6 = area_accepts_iff [of env kvs']
  have 7: "z = JNull \<or> (\<exists>bool. z = JBool bool) \<or> (\<exists>text. z = JNum text) \<or> (\<exists>text. z = JStr text)
        \<or> (\<exists>xs. z = JArr xs) \<longrightarrow> (\<exists>e. export_area env z = Inl e)"
    using area_raises_for_non_object [of z env] by blast
  show ?thesis
    by (intro conjI; (rule 1 [THEN conjunct1] | rule 1 [THEN conjunct2] | rule 2 | rule 3
        | rule 4 | rule 5 | rule 6 | rule 7))
qed

theorem option_builders_validation_witness:
  "export_width env_ok (JInt 100) = Inr ''--export-width=100''
   \<and> export_area env_ok (JObj [(''x0'', JInt 0), (''y0'', JInt 0), (''x1'', JInt 100),
        (''y1'', JInt 200)]) = Inr ''--export-area=0:0:100:200''
   \<and> export_width env_ok (JStr '' -12px'') = Inr ''--export-width=-12''
   \<and> (\<exists>e. export_width env_ok (JStr ''not-a-number'') = Inl e)
   \<and> (\<exists>e. export_area env_ok (JNum ''3'') = Inl e)
   \<and> (\<exists>flag. export_png ''/r/tmp_1'' (JStr ''out.png'') = Inr flag)"
  using option_builders_validation [where folder = "''/r/tmp_1''" and p = "JStr ''out.png''"
      and f = "''out.png''" and i = 100 and env = env_ok
      and kvs = "[(''x0'', JInt 0), (''y0'', JInt 0), (''x1'', JInt 100), (''y1'', JInt 200)]"
      and a = 0 and b = 0 and c = 100 and d = 200
      and wss = "[[CHR 0x20]]" and sg = "''-''" and rest = "''px''" and n = 12
      and t = "'' -12px''" and v = "JStr '' -12px''"
      and u = "JStr ''not-a-number''" and t' = "''not-a-number''" and wss' = "[]"
      and sg' = "[]" and junk = "''not-a-number''" and kvs' = "[]" and z = "JNum ''3''"]
  by (simp add: show_int_def show_nat.simps digit_def whiteSpace_def leadingWhiteSpace_def)

end
